theory Spec2Isabelle
  imports Complex_Main "HOL-Library.Multiset" "HOL-Library.Log_Nat"
begin

section \<open>JavaScript numbers\<close>

text \<open>
  The storage layer of the time-tracking application (the classes \<open>MemStorage\<close> and
  \<open>DatabaseStorage\<close>) and the report helpers of the routes compute with JavaScript
  numbers, which are IEEE 754 binary64 values. A number is modelled as \<open>NaN\<close>, one of
  the two infinities, or a finite rational; every arithmetic operation rounds its exact
  result to the nearest binary64 value, ties to even, as the hardware does. The sign of
  zero is not modelled.
\<close>

datatype jsnum = NaN | PInf | NInf | Fin rat

subsection \<open>Rounding to binary64\<close>

text \<open>The integer nearest to \<open>y\<close>; of two equally near ones, the even one.\<close>

definition round_half_even :: "rat \<Rightarrow> int" where
  "round_half_even y =
     (let f = \<lfloor>y\<rfloor>; r = y - of_int f
      in if r < 1 / 2 then f else if 1 / 2 < r then f + 1 else if even f then f else f + 1)"

text \<open>For \<open>x > 0\<close>, the exponent \<open>e\<close> with \<open>2\<^sup>e \<le> x < 2\<^sup>e\<^sup>+\<^sup>1\<close>.\<close>

definition ilog2 :: "rat \<Rightarrow> int" where
  "ilog2 x = (if 1 \<le> x then bitlen \<lfloor>x\<rfloor> - 1 else - bitlen (\<lceil>1 / x\<rceil> - 1))"

text \<open>
  The binary64 value nearest to \<open>x\<close>. A binary64 value is an integer of at most 53 bits
  times a power of two whose exponent is at least \<open>-1074\<close>; a result of magnitude
  \<open>2\<^sup>1\<^sup>0\<^sup>2\<^sup>4\<close> or more is an infinity.
\<close>

definition round64 :: "rat \<Rightarrow> jsnum" where
  "round64 x =
     (if x = 0 then Fin 0
      else (let q = max (ilog2 \<bar>x\<bar> - 52) (- 1074);
                y = of_int (round_half_even (x / 2 powi q)) * 2 powi q
            in if 2 ^ 1024 \<le> \<bar>y\<bar> then (if 0 < x then PInf else NInf) else Fin y))"

subsection \<open>Arithmetic\<close>

fun js_neg :: "jsnum \<Rightarrow> jsnum" where
  "js_neg NaN = NaN"
| "js_neg PInf = NInf"
| "js_neg NInf = PInf"
| "js_neg (Fin a) = Fin (- a)"

text \<open>The operator \<open>+\<close> on two numbers.\<close>

fun js_add :: "jsnum \<Rightarrow> jsnum \<Rightarrow> jsnum" where
  "js_add NaN y = NaN"
| "js_add x NaN = NaN"
| "js_add PInf NInf = NaN"
| "js_add NInf PInf = NaN"
| "js_add PInf y = PInf"
| "js_add x PInf = PInf"
| "js_add NInf y = NInf"
| "js_add x NInf = NInf"
| "js_add (Fin a) (Fin b) = round64 (a + b)"

text \<open>The operator \<open>-\<close> on two numbers.\<close>

definition js_sub :: "jsnum \<Rightarrow> jsnum \<Rightarrow> jsnum" where
  "js_sub x y = js_add x (js_neg y)"

text \<open>The sign of a number that is not \<open>NaN\<close>: \<open>-1\<close>, \<open>0\<close> or \<open>1\<close>.\<close>

fun js_sign :: "jsnum \<Rightarrow> int" where
  "js_sign NaN = 0"
| "js_sign PInf = 1"
| "js_sign NInf = - 1"
| "js_sign (Fin a) = (if a < 0 then - 1 else if a = 0 then 0 else 1)"

definition inf_of_sign :: "int \<Rightarrow> jsnum" where
  "inf_of_sign s = (if s = 0 then NaN else if 0 < s then PInf else NInf)"

text \<open>The operator \<open>*\<close>: an infinity times zero is \<open>NaN\<close>.\<close>

fun js_mul :: "jsnum \<Rightarrow> jsnum \<Rightarrow> jsnum" where
  "js_mul NaN y = NaN"
| "js_mul x NaN = NaN"
| "js_mul (Fin a) (Fin b) = round64 (a * b)"
| "js_mul x y = inf_of_sign (js_sign x * js_sign y)"

text \<open>
  The operator \<open>/\<close>. A zero divisor is read as \<open>+0\<close>; the code only ever divides by
  the literals \<open>60\<close> and \<open>1000 * 60 * 60\<close>.
\<close>

fun js_div :: "jsnum \<Rightarrow> jsnum \<Rightarrow> jsnum" where
  "js_div NaN y = NaN"
| "js_div x NaN = NaN"
| "js_div (Fin a) (Fin b) = (if b = 0 then inf_of_sign (js_sign (Fin a)) else round64 (a / b))"
| "js_div (Fin a) y = Fin 0"
| "js_div x (Fin b) = inf_of_sign (js_sign x * (if b < 0 then - 1 else 1))"
| "js_div x y = NaN"

text \<open>\<open>Math.max(x, y)\<close>: \<open>NaN\<close> when an argument is \<open>NaN\<close>.\<close>

fun Math_max :: "jsnum \<Rightarrow> jsnum \<Rightarrow> jsnum" where
  "Math_max NaN y = NaN"
| "Math_max x NaN = NaN"
| "Math_max PInf y = PInf"
| "Math_max x PInf = PInf"
| "Math_max NInf y = y"
| "Math_max x NInf = x"
| "Math_max (Fin a) (Fin b) = Fin (max a b)"

text \<open>A number is falsy when it is zero or \<open>NaN\<close>; \<open>x || y\<close> is \<open>x\<close> unless \<open>x\<close> is falsy.\<close>

fun num_truthy :: "jsnum \<Rightarrow> bool" where
  "num_truthy NaN = False"
| "num_truthy (Fin a) = (a \<noteq> 0)"
| "num_truthy x = True"

definition num_or :: "jsnum \<Rightarrow> jsnum \<Rightarrow> jsnum" where
  "num_or x y = (if num_truthy x then x else y)"

section \<open>Strings to numbers\<close>

text \<open>
  Strings are lists of 8-bit characters, so the model covers ASCII text. The white space
  that \<open>Number\<close> and \<open>parseFloat\<close> strip is TAB, LF, VT, FF, CR and the space.
\<close>

definition is_ws :: "char \<Rightarrow> bool" where
  "is_ws c = (c \<in> set [CHR 0x09, CHR 0x0A, CHR 0x0B, CHR 0x0C, CHR 0x0D, CHR '' ''])"

text \<open>The value of a hexadecimal digit; decimal, octal and binary digits are its prefixes.\<close>

definition hex_digits :: "(char \<times> nat) list" where
  "hex_digits =
     [(CHR ''0'', 0), (CHR ''1'', 1), (CHR ''2'', 2), (CHR ''3'', 3), (CHR ''4'', 4),
      (CHR ''5'', 5), (CHR ''6'', 6), (CHR ''7'', 7), (CHR ''8'', 8), (CHR ''9'', 9),
      (CHR ''a'', 10), (CHR ''b'', 11), (CHR ''c'', 12), (CHR ''d'', 13), (CHR ''e'', 14),
      (CHR ''f'', 15), (CHR ''A'', 10), (CHR ''B'', 11), (CHR ''C'', 12), (CHR ''D'', 13),
      (CHR ''E'', 14), (CHR ''F'', 15)]"

definition digit_in :: "nat \<Rightarrow> char \<Rightarrow> bool" where
  "digit_in base c = (case map_of hex_digits c of None \<Rightarrow> False | Some d \<Rightarrow> d < base)"

definition digit_of :: "char \<Rightarrow> nat" where
  "digit_of c = (case map_of hex_digits c of None \<Rightarrow> 0 | Some d \<Rightarrow> d)"

definition is_digit :: "char \<Rightarrow> bool" where
  "is_digit c = digit_in 10 c"

definition digits_value :: "nat \<Rightarrow> string \<Rightarrow> nat" where
  "digits_value base ds = foldl (\<lambda>acc c. base * acc + digit_of c) 0 ds"

fun strip_prefix :: "string \<Rightarrow> string \<Rightarrow> string option" where
  "strip_prefix [] s = Some s"
| "strip_prefix (p # ps) [] = None"
| "strip_prefix (p # ps) (c # cs) = (if p = c then strip_prefix ps cs else None)"

definition pow10 :: "int \<Rightarrow> rat" where
  "pow10 e = (if 0 \<le> e then 10 ^ nat e else 1 / 10 ^ nat (- e))"

text \<open>
  \<open>ExponentPart\<close>, when the text starts with one: the exponent and the text after it.
  An \<open>e\<close> with no digits after it is no exponent part.
\<close>

definition exponent_part :: "string \<Rightarrow> int \<times> string" where
  "exponent_part s =
     (case s of
        [] \<Rightarrow> (0, s)
      | c # r \<Rightarrow>
          if c = CHR ''e'' \<or> c = CHR ''E'' then
            (let neg = (case r of [] \<Rightarrow> False | d # _ \<Rightarrow> d = CHR ''-'');
                 signed = (case r of [] \<Rightarrow> False | d # _ \<Rightarrow> d = CHR ''-'' \<or> d = CHR ''+'');
                 r1 = (if signed then tl r else r);
                 ds = takeWhile is_digit r1
             in if ds = [] then (0, s)
                else ((if neg then - 1 else 1) * int (digits_value 10 ds), dropWhile is_digit r1))
          else (0, s))"

text \<open>
  The longest prefix that is a \<open>StrUnsignedDecimalLiteral\<close> (\<open>Infinity\<close>, or digits with
  an optional fraction and an optional exponent), with its value and the text left over.
  The value of a literal is the binary64 value nearest to the decimal number it writes.
\<close>

definition unsigned_decimal :: "string \<Rightarrow> (jsnum \<times> string) option" where
  "unsigned_decimal s =
     (case strip_prefix ''Infinity'' s of
        Some r \<Rightarrow> Some (PInf, r)
      | None \<Rightarrow>
          (let ip = takeWhile is_digit s; r1 = dropWhile is_digit s;
               dot = (case r1 of [] \<Rightarrow> False | c # _ \<Rightarrow> c = CHR ''.'');
               fp = (if dot then takeWhile is_digit (tl r1) else []);
               r3 = (if dot then dropWhile is_digit (tl r1) else r1)
           in if ip = [] \<and> fp = [] then None
              else (case exponent_part r3 of
                      (e, r4) \<Rightarrow>
                        Some (round64 (of_nat (digits_value 10 (ip @ fp)) * pow10 (e - int (length fp))),
                              r4))))"

text \<open>The longest prefix that is a \<open>StrDecimalLiteral\<close>: an optional sign first.\<close>

definition str_decimal :: "string \<Rightarrow> (jsnum \<times> string) option" where
  "str_decimal s =
     (case s of
        [] \<Rightarrow> None
      | c # r \<Rightarrow>
          if c = CHR ''+'' then unsigned_decimal r
          else if c = CHR ''-'' then
            (case unsigned_decimal r of None \<Rightarrow> None | Some (v, r') \<Rightarrow> Some (js_neg v, r'))
          else unsigned_decimal s)"

text \<open>\<open>parseFloat(s)\<close>: leading white space is skipped, text after the literal is ignored.\<close>

definition parseFloat :: "string \<Rightarrow> jsnum" where
  "parseFloat s = (case str_decimal (dropWhile is_ws s) of None \<Rightarrow> NaN | Some (v, _) \<Rightarrow> v)"

text \<open>\<open>0x\<close>, \<open>0o\<close> and \<open>0b\<close> literals, which \<open>Number\<close> reads and \<open>parseFloat\<close> does not.\<close>

definition non_decimal :: "string \<Rightarrow> jsnum option" where
  "non_decimal t =
     (case t of
        z # x # ds \<Rightarrow>
          (let base = (if x = CHR ''x'' \<or> x = CHR ''X'' then 16
                       else if x = CHR ''o'' \<or> x = CHR ''O'' then 8
                       else if x = CHR ''b'' \<or> x = CHR ''B'' then 2 else 0)
           in if z = CHR ''0'' \<and> 0 < base \<and> ds \<noteq> [] \<and> list_all (digit_in base) ds
              then Some (round64 (of_nat (digits_value base ds))) else None)
      | _ \<Rightarrow> None)"

definition trim :: "string \<Rightarrow> string" where
  "trim s = rev (dropWhile is_ws (rev (dropWhile is_ws s)))"

text \<open>
  \<open>Number(s)\<close> on a string: white space around the text is dropped, the empty text is
  \<open>0\<close>, and the whole of what is left must be one numeric literal.
\<close>

definition Number_str :: "string \<Rightarrow> jsnum" where
  "Number_str s =
     (let t = trim s
      in if t = [] then Fin 0
         else (case non_decimal t of
                 Some v \<Rightarrow> v
               | None \<Rightarrow>
                   (case str_decimal t of
                      None \<Rightarrow> NaN
                    | Some (v, r) \<Rightarrow> if r = [] then v else NaN)))"

text \<open>\<open>s.split(sep)\<close> for a one-character separator.\<close>

fun js_split :: "string \<Rightarrow> char \<Rightarrow> string list" where
  "js_split [] sep = [[]]"
| "js_split (c # cs) sep =
     (if c = sep then [] # js_split cs sep
      else (case js_split cs sep of [] \<Rightarrow> [[c]] | p # ps \<Rightarrow> (c # p) # ps))"

text \<open>
  An array element read by destructuring and then used in arithmetic: a missing element
  is \<open>undefined\<close>, which arithmetic turns into \<open>NaN\<close>.
\<close>

definition elem_num :: "jsnum list \<Rightarrow> nat \<Rightarrow> jsnum" where
  "elem_num xs i = (if i < length xs then xs ! i else NaN)"

text \<open>\<open>time.split(':').map(Number)\<close>.\<close>

definition split_numbers :: "string \<Rightarrow> jsnum list" where
  "split_numbers time = map Number_str (js_split time CHR '':'')"

text \<open>A string is truthy when it is not empty; \<open>null\<close> and \<open>undefined\<close> are falsy.\<close>

definition str_truthy :: "string option \<Rightarrow> bool" where
  "str_truthy s = (case s of None \<Rightarrow> False | Some t \<Rightarrow> t \<noteq> [])"

section \<open>The data model\<close>

text \<open>
  The rows of \<open>shared/schema.ts\<close>. A nullable column is an \<open>option\<close> (\<open>None\<close> is
  \<open>null\<close>). The decimal columns \<open>totalHours\<close> and \<open>totalValue\<close> hold the text that
  \<open>toString()\<close> gives for a number, and every reader applies \<open>parseFloat\<close> to it, which
  gives the number back; the model keeps the number. The column \<open>hourlyRate\<close> is kept as
  text, since the code reads it with \<open>parseFloat\<close>.
\<close>

record Client =
  client_id :: int
  client_code :: string
  client_name :: string
  client_cnpj :: string
  client_email :: string

record Consultant =
  consultant_id :: int
  consultant_code :: string
  consultant_name :: string
  consultant_password :: string

record Service =
  service_id :: int
  service_code :: string
  service_clientId :: int
  service_description :: string
  hourlyRate :: string

record Sector =
  sector_id :: int
  sector_code :: string
  sector_clientId :: "int option"
  sector_description :: string

record ServiceType =
  serviceType_id :: int
  serviceType_code :: string
  serviceType_description :: string

record TimeEntry =
  entryId :: int
  date :: string
  consultantId :: int
  clientId :: int
  serviceId :: int
  sectorId :: "int option"
  serviceTypeId :: "int option"
  projectId :: "int option"
  startTime :: string
  endTime :: string
  breakStartTime :: "string option"
  breakEndTime :: "string option"
  description :: "string option"
  totalHours :: jsnum
  totalValue :: jsnum
  activityCompleted :: "string option"
  deliveryForecast :: "string option"
  actualDelivery :: "string option"
  serviceLocation :: "string option"

text \<open>
  A property of a request body that the schema makes optional and nullable: the key is
  absent, or it is \<open>null\<close>, or it has a value.
\<close>

datatype 'a nullable = Absent | Null | Val 'a

text \<open>
  \<open>InsertTimeEntry\<close>, what \<open>insertTimeEntrySchema\<close> lets through: the schema is
  generated from the table with \<open>id\<close>, \<open>totalHours\<close> and \<open>totalValue\<close> omitted. The
  time columns are text columns, so any string is a valid \<open>startTime\<close>, \<open>endTime\<close>,
  \<open>breakStartTime\<close> or \<open>breakEndTime\<close>.
\<close>

record InsertTimeEntry =
  i_date :: string
  i_consultantId :: int
  i_clientId :: int
  i_serviceId :: int
  i_sectorId :: "int nullable"
  i_serviceTypeId :: "int nullable"
  i_projectId :: "int nullable"
  i_startTime :: string
  i_endTime :: string
  i_breakStartTime :: "string nullable"
  i_breakEndTime :: "string nullable"
  i_description :: "string nullable"
  i_activityCompleted :: "string nullable"
  i_deliveryForecast :: "string nullable"
  i_actualDelivery :: "string nullable"
  i_serviceLocation :: "string nullable"

text \<open>\<open>Partial<InsertTimeEntry>\<close>: every key may be absent (\<open>None\<close>, \<open>Absent\<close>).\<close>

record UpdateTimeEntry =
  u_date :: "string option"
  u_consultantId :: "int option"
  u_clientId :: "int option"
  u_serviceId :: "int option"
  u_sectorId :: "int nullable"
  u_serviceTypeId :: "int nullable"
  u_projectId :: "int nullable"
  u_startTime :: "string option"
  u_endTime :: "string option"
  u_breakStartTime :: "string nullable"
  u_breakEndTime :: "string nullable"
  u_description :: "string nullable"
  u_activityCompleted :: "string nullable"
  u_deliveryForecast :: "string nullable"
  u_actualDelivery :: "string nullable"
  u_serviceLocation :: "string nullable"

datatype error = ServiceNotFound

subsection \<open>Truthiness and the operator \<open>||\<close>\<close>

definition int_truthy :: "int option \<Rightarrow> bool" where
  "int_truthy n = (case n of None \<Rightarrow> False | Some k \<Rightarrow> k \<noteq> 0)"

definition opt_of :: "'a nullable \<Rightarrow> 'a option" where
  "opt_of x = (case x of Val v \<Rightarrow> Some v | _ \<Rightarrow> None)"

text \<open>\<open>x || null\<close> and \<open>x || undefined\<close> on a string: the string when it is truthy.\<close>

definition str_or_null :: "string nullable \<Rightarrow> string option" where
  "str_or_null x = (if str_truthy (opt_of x) then opt_of x else None)"

definition int_or_null :: "int nullable \<Rightarrow> int option" where
  "int_or_null x = (if int_truthy (opt_of x) then opt_of x else None)"

text \<open>\<open>x || y\<close> where \<open>y\<close> is the stored value.\<close>

definition str_or :: "string option \<Rightarrow> string \<Rightarrow> string" where
  "str_or x y = (if str_truthy x then the x else y)"

definition int_or :: "int option \<Rightarrow> int \<Rightarrow> int" where
  "int_or x y = (if int_truthy x then the x else y)"

definition str_or_opt :: "string nullable \<Rightarrow> string option \<Rightarrow> string option" where
  "str_or_opt x y = (if str_truthy (opt_of x) then opt_of x else y)"

subsection \<open>Object spread\<close>

text \<open>
  \<open>{ ...timeEntry, ...updateData }\<close>, and equally the \<open>SET\<close> clause of an
  \<open>UPDATE\<close>: a key of the update data replaces the stored value, every other column
  keeps it.
\<close>

definition put :: "'a option \<Rightarrow> 'a \<Rightarrow> 'a" where
  "put u old = (case u of None \<Rightarrow> old | Some v \<Rightarrow> v)"

definition put_nullable :: "'a nullable \<Rightarrow> 'a option \<Rightarrow> 'a option" where
  "put_nullable u old = (case u of Absent \<Rightarrow> old | Null \<Rightarrow> None | Val v \<Rightarrow> Some v)"

definition spread :: "TimeEntry \<Rightarrow> UpdateTimeEntry \<Rightarrow> TimeEntry" where
  "spread e u =
     e\<lparr> date := put (u_date u) (date e),
        consultantId := put (u_consultantId u) (consultantId e),
        clientId := put (u_clientId u) (clientId e),
        serviceId := put (u_serviceId u) (serviceId e),
        sectorId := put_nullable (u_sectorId u) (sectorId e),
        serviceTypeId := put_nullable (u_serviceTypeId u) (serviceTypeId e),
        projectId := put_nullable (u_projectId u) (projectId e),
        startTime := put (u_startTime u) (startTime e),
        endTime := put (u_endTime u) (endTime e),
        breakStartTime := put_nullable (u_breakStartTime u) (breakStartTime e),
        breakEndTime := put_nullable (u_breakEndTime u) (breakEndTime e),
        description := put_nullable (u_description u) (description e),
        activityCompleted := put_nullable (u_activityCompleted u) (activityCompleted e),
        deliveryForecast := put_nullable (u_deliveryForecast u) (deliveryForecast e),
        actualDelivery := put_nullable (u_actualDelivery u) (actualDelivery e),
        serviceLocation := put_nullable (u_serviceLocation u) (serviceLocation e) \<rparr>"

section \<open>MemStorage\<close>

text \<open>
  The in-memory store. \<open>timeEntries\<close> is a JavaScript \<open>Map\<close> whose values are read in
  insertion order, so it is a list of pairs; the other maps are only looked up by key.
\<close>

record MemStorage =
  clients :: "int \<rightharpoonup> Client"
  consultants :: "int \<rightharpoonup> Consultant"
  services :: "int \<rightharpoonup> Service"
  sectors :: "int \<rightharpoonup> Sector"
  serviceTypes :: "int \<rightharpoonup> ServiceType"
  timeEntries :: "(int \<times> TimeEntry) list"
  currentClientId :: int
  currentConsultantId :: int
  currentServiceId :: int
  currentSectorId :: int
  currentServiceTypeId :: int
  currentTimeEntryId :: int

text \<open>\<open>Map.set\<close>: an existing key keeps its place, a new key goes last.\<close>

fun map_set :: "'k \<Rightarrow> 'v \<Rightarrow> ('k \<times> 'v) list \<Rightarrow> ('k \<times> 'v) list" where
  "map_set k v [] = [(k, v)]"
| "map_set k v (p # m) = (if fst p = k then (k, v) # m else p # map_set k v m)"

text \<open>\<open>MemStorage.calculateHoursAndValue\<close>; the result is the pair \<open>(hours, value)\<close>.\<close>

definition calculateHoursAndValue ::
  "string \<Rightarrow> string \<Rightarrow> string \<Rightarrow> string option \<Rightarrow> string option \<Rightarrow> jsnum \<times> jsnum" where
  "calculateHoursAndValue startT endT rate breakStartT breakEndT =
     (let startParts = split_numbers startT;
          endParts = split_numbers endT;
          startMinutes = js_add (js_mul (elem_num startParts 0) (Fin 60)) (elem_num startParts 1);
          endMinutes = js_add (js_mul (elem_num endParts 0) (Fin 60)) (elem_num endParts 1);
          totalMinutes = js_sub endMinutes startMinutes;
          totalMinutes2 =
            (if str_truthy breakStartT \<and> str_truthy breakEndT then
               (let breakStartParts = split_numbers (the breakStartT);
                    breakEndParts = split_numbers (the breakEndT);
                    breakStartMinutes =
                      js_add (js_mul (elem_num breakStartParts 0) (Fin 60)) (elem_num breakStartParts 1);
                    breakEndMinutes =
                      js_add (js_mul (elem_num breakEndParts 0) (Fin 60)) (elem_num breakEndParts 1);
                    breakDuration = js_sub breakEndMinutes breakStartMinutes
                in js_sub totalMinutes breakDuration)
             else totalMinutes);
          hours = Math_max (Fin 0) (js_div totalMinutes2 (Fin 60));
          amount = js_mul hours (parseFloat rate)
      in (hours, amount))"

text \<open>
  \<open>MemStorage.createTimeEntry\<close>. The \<open>throw\<close> comes before any assignment, so the
  error leaves the store as it was.
\<close>

definition mem_createTimeEntry ::
  "MemStorage \<Rightarrow> InsertTimeEntry \<Rightarrow> (error + TimeEntry) \<times> MemStorage" where
  "mem_createTimeEntry st ins =
     (case services st (i_serviceId ins) of
        None \<Rightarrow> (Inl ServiceNotFound, st)
      | Some service \<Rightarrow>
          (let hv = calculateHoursAndValue (i_startTime ins) (i_endTime ins) (hourlyRate service)
                      (str_or_null (i_breakStartTime ins)) (str_or_null (i_breakEndTime ins));
               newId = currentTimeEntryId st;
               timeEntry =
                 \<lparr> entryId = newId,
                   date = i_date ins,
                   consultantId = i_consultantId ins,
                   clientId = i_clientId ins,
                   serviceId = i_serviceId ins,
                   sectorId = int_or_null (i_sectorId ins),
                   serviceTypeId = int_or_null (i_serviceTypeId ins),
                   projectId = int_or_null (i_projectId ins),
                   startTime = i_startTime ins,
                   endTime = i_endTime ins,
                   breakStartTime = str_or_null (i_breakStartTime ins),
                   breakEndTime = str_or_null (i_breakEndTime ins),
                   description = str_or_null (i_description ins),
                   totalHours = fst hv,
                   totalValue = snd hv,
                   activityCompleted = str_or_null (i_activityCompleted ins),
                   deliveryForecast = str_or_null (i_deliveryForecast ins),
                   actualDelivery = str_or_null (i_actualDelivery ins),
                   serviceLocation = str_or_null (i_serviceLocation ins) \<rparr>
           in (Inr timeEntry,
               st\<lparr> currentTimeEntryId := newId + 1,
                   timeEntries := map_set newId timeEntry (timeEntries st) \<rparr>)))"

text \<open>
  \<open>MemStorage.updateTimeEntry\<close>; \<open>None\<close> is the result \<open>undefined\<close>. The recalculation
  calls \<open>calculateHoursAndValue\<close> with three arguments, so without a break.
\<close>

definition mem_updateTimeEntry ::
  "MemStorage \<Rightarrow> int \<Rightarrow> UpdateTimeEntry \<Rightarrow> TimeEntry option \<times> MemStorage" where
  "mem_updateTimeEntry st eid upd =
     (case map_of (timeEntries st) eid of
        None \<Rightarrow> (None, st)
      | Some timeEntry \<Rightarrow>
          (let updatedEntry = spread timeEntry upd
           in if str_truthy (u_startTime upd) \<or> str_truthy (u_endTime upd)
                 \<or> int_truthy (u_serviceId upd)
              then
                (case services st (int_or (u_serviceId upd) (serviceId timeEntry)) of
                   None \<Rightarrow> (None, st)
                 | Some service \<Rightarrow>
                     (let hv = calculateHoursAndValue
                                 (str_or (u_startTime upd) (startTime timeEntry))
                                 (str_or (u_endTime upd) (endTime timeEntry))
                                 (hourlyRate service) None None;
                          recalculated = updatedEntry\<lparr> totalHours := fst hv, totalValue := snd hv \<rparr>
                      in (Some recalculated,
                          st\<lparr> timeEntries := map_set eid recalculated (timeEntries st) \<rparr>)))
              else (Some updatedEntry,
                    st\<lparr> timeEntries := map_set eid updatedEntry (timeEntries st) \<rparr>)))"

subsection \<open>Reports\<close>

record ReportFilters =
  f_startDate :: "string option"
  f_endDate :: "string option"
  f_clientId :: "int option"
  f_consultantId :: "int option"

record ClientBreakdown =
  cb_clientId :: int
  cb_clientName :: string
  cb_hours :: jsnum
  cb_value :: jsnum
  cb_entries :: nat

record ReportData =
  r_totalHours :: jsnum
  r_totalValue :: jsnum
  r_totalEntries :: nat
  r_totalClients :: nat
  clientBreakdown :: "ClientBreakdown list"

text \<open>\<open>a <= b\<close> on strings: by the first character that differs.\<close>

fun str_le :: "string \<Rightarrow> string \<Rightarrow> bool" where
  "str_le [] ys = True"
| "str_le (x # xs) [] = False"
| "str_le (x # xs) (y # ys) = (if x = y then str_le xs ys else (of_char x :: nat) < of_char y)"

text \<open>The four filters of \<open>getReportData\<close>; a filter that is absent or falsy is skipped.\<close>

definition matches :: "ReportFilters \<Rightarrow> TimeEntry \<Rightarrow> bool" where
  "matches f entry =
     ((if str_truthy (f_startDate f) then str_le (the (f_startDate f)) (date entry) else True)
      \<and> (if str_truthy (f_endDate f) then str_le (date entry) (the (f_endDate f)) else True)
      \<and> (if int_truthy (f_clientId f) then clientId entry = the (f_clientId f) else True)
      \<and> (if int_truthy (f_consultantId f) then consultantId entry = the (f_consultantId f)
          else True))"

text \<open>\<open>xs.reduce((sum, x) => sum + parseFloat(field(x)), 0)\<close>.\<close>

definition reduce_sum :: "('a \<Rightarrow> jsnum) \<Rightarrow> 'a list \<Rightarrow> jsnum" where
  "reduce_sum field xs = foldl (\<lambda>sum x. js_add sum (field x)) (Fin 0) xs"

text \<open>\<open>new Set(xs)\<close>, in the order in which the elements were first added.\<close>

definition js_Set :: "'a list \<Rightarrow> 'a list" where
  "js_Set xs = foldl (\<lambda>s x. if x \<in> set s then s else s @ [x]) [] xs"

text \<open>
  \<open>xs.sort(cmp)\<close>: a stable sort, \<open>x\<close> goes behind \<open>y\<close> when \<open>cmp(x, y) > 0\<close>. (For a
  comparator that returns \<open>NaN\<close> the order is left to the engine; every engine returns a
  permutation of the array.)
\<close>

fun insert_sorted :: "('a \<Rightarrow> 'a \<Rightarrow> jsnum) \<Rightarrow> 'a \<Rightarrow> 'a list \<Rightarrow> 'a list" where
  "insert_sorted cmp x [] = [x]"
| "insert_sorted cmp x (y # ys) =
     (if 0 < js_sign (cmp x y) then y # insert_sorted cmp x ys else x # y # ys)"

definition js_sort :: "('a \<Rightarrow> 'a \<Rightarrow> jsnum) \<Rightarrow> 'a list \<Rightarrow> 'a list" where
  "js_sort cmp xs = foldr (insert_sorted cmp) xs []"

definition by_value_desc :: "ClientBreakdown \<Rightarrow> ClientBreakdown \<Rightarrow> jsnum" where
  "by_value_desc a b = js_sub (cb_value b) (cb_value a)"

text \<open>
  The callback of \<open>clientIds.forEach\<close> in \<open>MemStorage.getReportData\<close>: what it pushes
  onto \<open>clientBreakdown\<close> for one client id. A client id with no client in the store
  gets no group.
\<close>

definition mem_clientGroup :: "MemStorage \<Rightarrow> TimeEntry list \<Rightarrow> int \<Rightarrow> ClientBreakdown list" where
  "mem_clientGroup st filteredEntries cid =
     (case clients st cid of
        None \<Rightarrow> []
      | Some client \<Rightarrow>
          (let clientEntries = filter (\<lambda>entry. clientId entry = cid) filteredEntries
           in [\<lparr> cb_clientId = cid,
                  cb_clientName = client_name client,
                  cb_hours = reduce_sum totalHours clientEntries,
                  cb_value = reduce_sum totalValue clientEntries,
                  cb_entries = length clientEntries \<rparr>]))"

text \<open>\<open>MemStorage.getReportData\<close>.\<close>

definition mem_getReportData :: "MemStorage \<Rightarrow> ReportFilters \<Rightarrow> ReportData" where
  "mem_getReportData st f =
     (let filteredEntries = filter (matches f) (map snd (timeEntries st));
          clientIds = js_Set (map clientId filteredEntries);
          groups = concat (map (mem_clientGroup st filteredEntries) clientIds)
      in \<lparr> r_totalHours = reduce_sum totalHours filteredEntries,
           r_totalValue = reduce_sum totalValue filteredEntries,
           r_totalEntries = length filteredEntries,
           r_totalClients = length clientIds,
           clientBreakdown = js_sort by_value_desc groups \<rparr>)"

section \<open>DatabaseStorage\<close>

text \<open>
  The tables the methods below touch. A table that is only read by primary key is a map;
  \<open>time_entries\<close> is the list of its rows, in the order a query without
  \<open>ORDER BY\<close> happens to return them, and \<open>time_entries_id_seq\<close> is the sequence behind
  its serial \<open>id\<close>.

  The class hands its data to the database in two statements, \<open>db_insert\<close> and
  \<open>db_update\<close> below. What the engine does with a statement is not code of the class:
  the two definitions store what they are given, and leave out the checks of the engine
  (foreign keys, the range of a column) and the rounding of a decimal column to its
  scale. What is proved about \<open>createTimeEntry\<close> and about a recalculating
  \<open>updateTimeEntry\<close> is therefore stated about the values with which the statement is
  called, not about the row the engine returns.
\<close>

record Database =
  db_clients :: "int \<rightharpoonup> Client"
  db_services :: "int \<rightharpoonup> Service"
  db_timeEntries :: "TimeEntry list"
  time_entries_id_seq :: int

text \<open>\<open>DatabaseStorage.timeToMinutes\<close>.\<close>

definition timeToMinutes :: "string \<Rightarrow> jsnum" where
  "timeToMinutes time =
     (let parts = split_numbers time
      in js_add (js_mul (elem_num parts 0) (Fin 60)) (elem_num parts 1))"

text \<open>\<open>DatabaseStorage.calculateHours\<close>.\<close>

definition calculateHours ::
  "string \<Rightarrow> string \<Rightarrow> string option \<Rightarrow> string option \<Rightarrow> jsnum" where
  "calculateHours startT endT breakStartT breakEndT =
     (let start = timeToMinutes startT;
          finish = timeToMinutes endT;
          workMinutes = js_sub finish start;
          workMinutes2 =
            (if str_truthy breakStartT \<and> str_truthy breakEndT then
               (let breakStart = timeToMinutes (the breakStartT);
                    breakEnd = timeToMinutes (the breakEndT)
                in js_sub workMinutes (js_sub breakEnd breakStart))
             else workMinutes)
      in js_div workMinutes2 (Fin 60))"

text \<open>\<open>getTimeEntry(id)\<close>: the first row with that id.\<close>

definition db_getTimeEntry :: "Database \<Rightarrow> int \<Rightarrow> TimeEntry option" where
  "db_getTimeEntry db eid = find (\<lambda>row. entryId row = eid) (db_timeEntries db)"

text \<open>
  The object \<open>timeEntryWithCalc\<close> that \<open>createTimeEntry\<close> builds for the service it has
  found: the properties of the request, and the two totals.
\<close>

definition timeEntryWithCalc :: "Service \<Rightarrow> InsertTimeEntry \<Rightarrow> InsertTimeEntry \<times> jsnum \<times> jsnum" where
  "timeEntryWithCalc service ins =
     (let hours = calculateHours (i_startTime ins) (i_endTime ins)
                    (opt_of (i_breakStartTime ins)) (opt_of (i_breakEndTime ins));
          amount = js_mul hours (parseFloat (hourlyRate service))
      in (ins, hours, amount))"

text \<open>
  \<open>db.insert(timeEntries).values(data).returning()\<close>. The inserted row takes its id from
  the sequence; a nullable column whose key is absent takes the column default, which is
  \<open>null\<close> except for \<open>description\<close> (the empty string).
\<close>

definition db_insert :: "Database \<Rightarrow> InsertTimeEntry \<times> jsnum \<times> jsnum \<Rightarrow> TimeEntry \<times> Database" where
  "db_insert db data =
     (let ins = fst data;
          row =
            \<lparr> entryId = time_entries_id_seq db,
              date = i_date ins,
              consultantId = i_consultantId ins,
              clientId = i_clientId ins,
              serviceId = i_serviceId ins,
              sectorId = opt_of (i_sectorId ins),
              serviceTypeId = opt_of (i_serviceTypeId ins),
              projectId = opt_of (i_projectId ins),
              startTime = i_startTime ins,
              endTime = i_endTime ins,
              breakStartTime = opt_of (i_breakStartTime ins),
              breakEndTime = opt_of (i_breakEndTime ins),
              description = put_nullable (i_description ins) (Some []),
              totalHours = fst (snd data),
              totalValue = snd (snd data),
              activityCompleted = opt_of (i_activityCompleted ins),
              deliveryForecast = opt_of (i_deliveryForecast ins),
              actualDelivery = opt_of (i_actualDelivery ins),
              serviceLocation = opt_of (i_serviceLocation ins) \<rparr>
      in (row, db\<lparr> db_timeEntries := db_timeEntries db @ [row],
                    time_entries_id_seq := time_entries_id_seq db + 1 \<rparr>))"

text \<open>\<open>DatabaseStorage.createTimeEntry\<close>.\<close>

definition db_createTimeEntry ::
  "Database \<Rightarrow> InsertTimeEntry \<Rightarrow> (error + TimeEntry) \<times> Database" where
  "db_createTimeEntry db ins =
     (case db_services db (i_serviceId ins) of
        None \<Rightarrow> (Inl ServiceNotFound, db)
      | Some service \<Rightarrow>
          (let res = db_insert db (timeEntryWithCalc service ins)
           in (Inr (fst res), snd res)))"

text \<open>
  \<open>db.update(timeEntries).set(data).where(eq(timeEntries.id, id)).returning()\<close>: the row
  with that id gets the columns of \<open>data\<close>, which are the keys of the update data and,
  after a recalculation, \<open>totalHours\<close> and \<open>totalValue\<close>. The result is the first row
  returned, or \<open>undefined\<close>.
\<close>

definition set_columns :: "TimeEntry \<Rightarrow> UpdateTimeEntry \<Rightarrow> (jsnum \<times> jsnum) option \<Rightarrow> TimeEntry" where
  "set_columns row upd totals =
     (case totals of
        None \<Rightarrow> spread row upd
      | Some hv \<Rightarrow> (spread row upd)\<lparr> totalHours := fst hv, totalValue := snd hv \<rparr>)"

definition db_update ::
  "Database \<Rightarrow> int \<Rightarrow> UpdateTimeEntry \<Rightarrow> (jsnum \<times> jsnum) option \<Rightarrow> TimeEntry option \<times> Database" where
  "db_update db eid upd totals =
     (let rows = map (\<lambda>row. if entryId row = eid then set_columns row upd totals else row)
                   (db_timeEntries db)
      in (find (\<lambda>row. entryId row = eid) rows, db\<lparr> db_timeEntries := rows \<rparr>))"

text \<open>
  The object \<open>updatedData\<close> that a recalculating \<open>updateTimeEntry\<close> builds from the row
  it has read and the service it has found: the properties of the update data, and the
  two totals.
\<close>

definition updatedData ::
  "TimeEntry \<Rightarrow> Service \<Rightarrow> UpdateTimeEntry \<Rightarrow> UpdateTimeEntry \<times> jsnum \<times> jsnum" where
  "updatedData existing service upd =
     (let hours = calculateHours
                    (str_or (u_startTime upd) (startTime existing))
                    (str_or (u_endTime upd) (endTime existing))
                    (str_or_opt (u_breakStartTime upd) (breakStartTime existing))
                    (str_or_opt (u_breakEndTime upd) (breakEndTime existing));
          amount = js_mul hours (parseFloat (hourlyRate service))
      in (upd, hours, amount))"

text \<open>\<open>DatabaseStorage.updateTimeEntry\<close>; \<open>Inr None\<close> is the result \<open>undefined\<close>.\<close>

definition db_updateTimeEntry ::
  "Database \<Rightarrow> int \<Rightarrow> UpdateTimeEntry \<Rightarrow> (error + TimeEntry option) \<times> Database" where
  "db_updateTimeEntry db eid upd =
     (if str_truthy (u_startTime upd) \<or> str_truthy (u_endTime upd)
         \<or> str_truthy (opt_of (u_breakStartTime upd)) \<or> str_truthy (opt_of (u_breakEndTime upd))
         \<or> int_truthy (u_serviceId upd)
      then
        (case db_getTimeEntry db eid of
           None \<Rightarrow> (Inr None, db)
         | Some existing \<Rightarrow>
             (case db_services db (int_or (u_serviceId upd) (serviceId existing)) of
                None \<Rightarrow> (Inl ServiceNotFound, db)
              | Some service \<Rightarrow>
                  (let data = updatedData existing service upd;
                       res = db_update db eid (fst data) (Some (snd data))
                   in (Inr (fst res), snd res))))
      else (let res = db_update db eid upd None in (Inr (fst res), snd res)))"

text \<open>
  The callback of \<open>Array.from(uniqueClients).map\<close> in
  \<open>DatabaseStorage.getReportData\<close>: the group of one client id. An entry of the query is
  a row of \<open>time_entries\<close> with the client row it joins to, if there is one; a group
  with no client row, or with an empty client name, is named \<open>Unknown\<close>.
\<close>

definition db_clientGroup :: "(TimeEntry \<times> Client option) list \<Rightarrow> int \<Rightarrow> ClientBreakdown" where
  "db_clientGroup entries cid =
     (let clientEntries = filter (\<lambda>entry. clientId (fst entry) = cid) entries;
          joined = (case clientEntries of [] \<Rightarrow> None | entry # _ \<Rightarrow> snd entry);
          named = (case joined of None \<Rightarrow> None | Some client \<Rightarrow> Some (client_name client))
      in \<lparr> cb_clientId = cid,
           cb_clientName = (if str_truthy named then the named else ''Unknown''),
           cb_hours = reduce_sum (\<lambda>entry. totalHours (fst entry)) clientEntries,
           cb_value = reduce_sum (\<lambda>entry. totalValue (fst entry)) clientEntries,
           cb_entries = length clientEntries \<rparr>)"

text \<open>
  The query of \<open>DatabaseStorage.getReportData\<close>: the rows that meet the conditions, each
  left-joined to its client. The conditions compare dates as the in-memory store does.
\<close>

definition db_reportQuery :: "Database \<Rightarrow> ReportFilters \<Rightarrow> (TimeEntry \<times> Client option) list" where
  "db_reportQuery db f =
     map (\<lambda>row. (row, db_clients db (clientId row))) (filter (matches f) (db_timeEntries db))"

text \<open>\<open>DatabaseStorage.getReportData\<close>.\<close>

definition db_getReportData :: "Database \<Rightarrow> ReportFilters \<Rightarrow> ReportData" where
  "db_getReportData db f =
     (let entries = db_reportQuery db f;
          uniqueClients = js_Set (map (\<lambda>entry. clientId (fst entry)) entries);
          groups = map (db_clientGroup entries) uniqueClients
      in \<lparr> r_totalHours = reduce_sum (\<lambda>entry. totalHours (fst entry)) entries,
           r_totalValue = reduce_sum (\<lambda>entry. totalValue (fst entry)) entries,
           r_totalEntries = length entries,
           r_totalClients = length uniqueClients,
           clientBreakdown = js_sort by_value_desc groups \<rparr>)"

section \<open>The report helpers of the routes\<close>

text \<open>
  \<open>new Date(`2000-01-01T${t}`).getTime()\<close>, on a server whose time zone is UTC: the
  milliseconds from the epoch to that time of 1 January 2000 when \<open>t\<close> has the form
  \<open>HH:mm\<close>, and \<open>NaN\<close> (an invalid date) otherwise. The hour is at most 23 and the
  minute at most 59, or the time is \<open>24:00\<close>, the end of the day. The model reads only
  the form \<open>HH:mm\<close>; a time with seconds or with a zone is not read.
\<close>

definition Date_getTime :: "string \<Rightarrow> jsnum" where
  "Date_getTime t =
     (case t of
        [h1, h2, c, m1, m2] \<Rightarrow>
          if is_digit h1 \<and> is_digit h2 \<and> c = CHR '':'' \<and> is_digit m1 \<and> is_digit m2
             \<and> (digits_value 10 [h1, h2] \<le> 23 \<and> digits_value 10 [m1, m2] \<le> 59
                  \<or> digits_value 10 [h1, h2] = 24 \<and> digits_value 10 [m1, m2] = 0)
          then Fin (946684800000
                    + of_nat ((60 * digits_value 10 [h1, h2] + digits_value 10 [m1, m2]) * 60000))
          else NaN
      | _ \<Rightarrow> NaN)"

text \<open>\<open>calculateEntryHours\<close> of \<open>server/routes.ts\<close>.\<close>

definition calculateEntryHours :: "TimeEntry \<Rightarrow> jsnum" where
  "calculateEntryHours entry =
     (let start = Date_getTime (startTime entry);
          finish = Date_getTime (endTime entry);
          hours = js_div (js_sub finish start) (Fin (1000 * 60 * 60))
      in if str_truthy (breakStartTime entry) \<and> str_truthy (breakEndTime entry) then
           (let breakStart = Date_getTime (the (breakStartTime entry));
                breakEnd = Date_getTime (the (breakEndTime entry));
                breakHours = js_div (js_sub breakEnd breakStart) (Fin (1000 * 60 * 60))
            in js_sub hours breakHours)
         else hours)"

text \<open>
  \<open>calculateEntryValue\<close> of \<open>server/routes.ts\<close>; the second argument is
  \<open>entry.service\<close>, which the detailed entries of the reports carry.
\<close>

definition calculateEntryValue :: "TimeEntry \<Rightarrow> Service \<Rightarrow> jsnum" where
  "calculateEntryValue entry service =
     (let hours = calculateEntryHours entry;
          rate = num_or (parseFloat (hourlyRate service)) (Fin 0)
      in js_mul hours rate)"

section \<open>Times of day\<close>




section \<open>A small store\<close>

text \<open>
  Concrete data for the worked examples: the first client and the first service of the
  sample data of \<open>MemStorage\<close>, and a time entry with the times of its first entry
  (08:00 to 17:00 with a break from 12:00 to 13:00, eight hours at 142 an hour).
\<close>

definition client1 :: Client where
  "client1 = \<lparr> client_id = 1, client_code = ''CLI001'', client_name = ''SkyStoneBrasil'',
               client_cnpj = ''12.345.678/0001-90'', client_email = ''contato@skystone.com.br'' \<rparr>"

definition service1 :: Service where
  "service1 = \<lparr> service_id = 1, service_code = ''DEV001'', service_clientId = 1,
                service_description = ''Desenvolvimento de Sistema ERP'', hourlyRate = ''142'' \<rparr>"

definition entry1 :: TimeEntry where
  "entry1 = \<lparr> entryId = 1, date = ''2024-12-01'', consultantId = 3, clientId = 1,
              serviceId = 1, sectorId = Some 1, serviceTypeId = Some 1, projectId = None,
              startTime = ''08:00'', endTime = ''17:00'',
              breakStartTime = Some ''12:00'', breakEndTime = Some ''13:00'',
              description = Some ''Desenvolvimento de funcionalidades do sistema ERP'',
              totalHours = Fin 8, totalValue = Fin 1136,
              activityCompleted = None, deliveryForecast = None, actualDelivery = None,
              serviceLocation = None \<rparr>"

definition store1 :: MemStorage where
  "store1 = \<lparr> clients = [1 \<mapsto> client1], consultants = Map.empty,
              services = [1 \<mapsto> service1], sectors = Map.empty, serviceTypes = Map.empty,
              timeEntries = [(1, entry1)],
              currentClientId = 2, currentConsultantId = 1, currentServiceId = 2,
              currentSectorId = 1, currentServiceTypeId = 1, currentTimeEntryId = 2 \<rparr>"

definition database1 :: Database where
  "database1 = \<lparr> db_clients = [1 \<mapsto> client1], db_services = [1 \<mapsto> service1],
                 db_timeEntries = [entry1], time_entries_id_seq = 2 \<rparr>"

text \<open>A request body for a new entry on 2 December 2024, 09:00 to 18:00, no break.\<close>

definition insert1 :: InsertTimeEntry where
  "insert1 = \<lparr> i_date = ''2024-12-02'', i_consultantId = 3, i_clientId = 1, i_serviceId = 1,
               i_sectorId = Absent, i_serviceTypeId = Absent, i_projectId = Absent,
               i_startTime = ''09:00'', i_endTime = ''18:00'',
               i_breakStartTime = Absent, i_breakEndTime = Absent, i_description = Absent,
               i_activityCompleted = Absent, i_deliveryForecast = Absent,
               i_actualDelivery = Absent, i_serviceLocation = Absent \<rparr>"

text \<open>The empty update data \<open>{}\<close>.\<close>

definition no_update :: UpdateTimeEntry where
  "no_update = \<lparr> u_date = None, u_consultantId = None, u_clientId = None, u_serviceId = None,
                 u_sectorId = Absent, u_serviceTypeId = Absent, u_projectId = Absent,
                 u_startTime = None, u_endTime = None,
                 u_breakStartTime = Absent, u_breakEndTime = Absent, u_description = Absent,
                 u_activityCompleted = Absent, u_deliveryForecast = Absent,
                 u_actualDelivery = Absent, u_serviceLocation = Absent \<rparr>"


section \<open>Times that do not convert\<close>

text \<open>
  The times that enter a duration calculation do not all convert to a number: the start
  or the end has minutes \<open>NaN\<close>, or a break is given (both ends truthy) and one of its
  ends has minutes \<open>NaN\<close>.
\<close>

definition corrupt_times :: "string \<Rightarrow> string \<Rightarrow> string option \<Rightarrow> string option \<Rightarrow> bool" where
  "corrupt_times s e bs be =
     (timeToMinutes s = NaN \<or> timeToMinutes e = NaN
      \<or> (str_truthy bs \<and> str_truthy be
          \<and> (timeToMinutes (the bs) = NaN \<or> timeToMinutes (the be) = NaN)))"


definition db_recalculates :: "UpdateTimeEntry \<Rightarrow> bool" where
  "db_recalculates upd =
     (str_truthy (u_startTime upd) \<or> str_truthy (u_endTime upd)
      \<or> str_truthy (opt_of (u_breakStartTime upd)) \<or> str_truthy (opt_of (u_breakEndTime upd))
      \<or> int_truthy (u_serviceId upd))"

section \<open>The entries of a report\<close>

text \<open>
  The collection a report of the in-memory store is about: the values of the
  \<open>timeEntries\<close> map that pass the filters. \<open>no_filters\<close> is the filter object \<open>{}\<close>.
\<close>

definition mem_reportEntries :: "MemStorage \<Rightarrow> ReportFilters \<Rightarrow> TimeEntry list" where
  "mem_reportEntries st f = filter (matches f) (map snd (timeEntries st))"

definition no_filters :: ReportFilters where
  "no_filters = \<lparr> f_startDate = None, f_endDate = None, f_clientId = None,
                  f_consultantId = None \<rparr>"

text \<open>
  A second entry (the times of the third sample entry: 08:30 to 16:30, no break), and
  the small store and the small database with both entries, in either order.
\<close>

definition entry3 :: TimeEntry where
  "entry3 = \<lparr> entryId = 3, date = ''2024-12-03'', consultantId = 3, clientId = 1,
              serviceId = 1, sectorId = None, serviceTypeId = Some 3, projectId = None,
              startTime = ''08:30'', endTime = ''16:30'',
              breakStartTime = None, breakEndTime = None, description = None,
              totalHours = Fin 8, totalValue = Fin 1136,
              activityCompleted = None, deliveryForecast = None, actualDelivery = None,
              serviceLocation = None \<rparr>"

definition store13 :: MemStorage where
  "store13 = store1\<lparr> timeEntries := [(1, entry1), (3, entry3)], currentTimeEntryId := 4 \<rparr>"

definition store31 :: MemStorage where
  "store31 = store1\<lparr> timeEntries := [(3, entry3), (1, entry1)], currentTimeEntryId := 4 \<rparr>"

definition database13 :: Database where
  "database13 = database1\<lparr> db_timeEntries := [entry1, entry3], time_entries_id_seq := 4 \<rparr>"

definition database31 :: Database where
  "database31 = database1\<lparr> db_timeEntries := [entry3, entry1], time_entries_id_seq := 4 \<rparr>"

definition db_reportEntries :: "Database \<Rightarrow> ReportFilters \<Rightarrow> TimeEntry list" where
  "db_reportEntries db f = map fst (db_reportQuery db f)"

text \<open>
  A second client and an entry for it (09:00 to 12:00 at 120 an hour), and the store and
  the database with the two clients and the three entries.
\<close>

definition client2 :: Client where
  "client2 = \<lparr> client_id = 2, client_code = ''CLI002'', client_name = ''TechCorp'',
               client_cnpj = ''98.765.432/0001-10'', client_email = ''contato@techcorp.com'' \<rparr>"

definition entry2 :: TimeEntry where
  "entry2 = \<lparr> entryId = 2, date = ''2024-12-02'', consultantId = 3, clientId = 2,
              serviceId = 3, sectorId = None, serviceTypeId = Some 3, projectId = None,
              startTime = ''09:00'', endTime = ''12:00'',
              breakStartTime = None, breakEndTime = None, description = None,
              totalHours = Fin 3, totalValue = Fin 360,
              activityCompleted = None, deliveryForecast = None, actualDelivery = None,
              serviceLocation = None \<rparr>"

definition store123 :: MemStorage where
  "store123 = store1\<lparr> clients := [1 \<mapsto> client1, 2 \<mapsto> client2],
                       timeEntries := [(1, entry1), (2, entry2), (3, entry3)],
                       currentTimeEntryId := 4 \<rparr>"

definition store321 :: MemStorage where
  "store321 = store1\<lparr> clients := [1 \<mapsto> client1, 2 \<mapsto> client2],
                       timeEntries := [(3, entry3), (2, entry2), (1, entry1)],
                       currentTimeEntryId := 4 \<rparr>"

definition database123 :: Database where
  "database123 = database1\<lparr> db_clients := [1 \<mapsto> client1, 2 \<mapsto> client2],
                             db_timeEntries := [entry1, entry2, entry3],
                             time_entries_id_seq := 4 \<rparr>"

definition database321 :: Database where
  "database321 = database1\<lparr> db_clients := [1 \<mapsto> client1, 2 \<mapsto> client2],
                             db_timeEntries := [entry3, entry2, entry1],
                             time_entries_id_seq := 4 \<rparr>"

text \<open>
  Three short entries of client \<open>c\<close>, of 6, 12 and 18 minutes at 100 an hour: their stored
  hours are the texts \<open>0.1\<close>, \<open>0.2\<close> and \<open>0.3\<close>, their stored values 10, 20 and 30.
\<close>

definition short_entry :: "int \<Rightarrow> int \<Rightarrow> string \<Rightarrow> jsnum \<Rightarrow> jsnum \<Rightarrow> TimeEntry" where
  "short_entry i c e h v =
     \<lparr> entryId = i, date = ''2024-12-04'', consultantId = 3, clientId = c,
       serviceId = 4, sectorId = None, serviceTypeId = None, projectId = None,
       startTime = ''08:00'', endTime = e,
       breakStartTime = None, breakEndTime = None, description = None,
       totalHours = h, totalValue = v,
       activityCompleted = None, deliveryForecast = None, actualDelivery = None,
       serviceLocation = None \<rparr>"

definition entry4 :: "int \<Rightarrow> TimeEntry" where
  "entry4 c = short_entry 4 c ''08:06'' (parseFloat ''0.1'') (Fin 10)"

definition entry5 :: "int \<Rightarrow> TimeEntry" where
  "entry5 c = short_entry 5 c ''08:12'' (parseFloat ''0.2'') (Fin 20)"

definition entry6 :: "int \<Rightarrow> TimeEntry" where
  "entry6 c = short_entry 6 c ''08:18'' (parseFloat ''0.3'') (Fin 30)"

text \<open>
  The three short entries for the first client, in the store and in the database, in
  either order.
\<close>

definition store456 :: MemStorage where
  "store456 = store1\<lparr> timeEntries := [(4, entry4 1), (5, entry5 1), (6, entry6 1)],
                       currentTimeEntryId := 7 \<rparr>"

definition store654 :: MemStorage where
  "store654 = store1\<lparr> timeEntries := [(6, entry6 1), (5, entry5 1), (4, entry4 1)],
                       currentTimeEntryId := 7 \<rparr>"

definition database456 :: Database where
  "database456 = database1\<lparr> db_timeEntries := [entry4 1, entry5 1, entry6 1],
                             time_entries_id_seq := 7 \<rparr>"

definition database654 :: Database where
  "database654 = database1\<lparr> db_timeEntries := [entry6 1, entry5 1, entry4 1],
                             time_entries_id_seq := 7 \<rparr>"

text \<open>
  The database with the first short entry for the first client and the other two for
  the second client.
\<close>

definition database_split :: Database where
  "database_split = database1\<lparr> db_clients := [1 \<mapsto> client1, 2 \<mapsto> client2],
                                db_timeEntries := [entry4 1, entry5 2, entry6 2],
                                time_entries_id_seq := 7 \<rparr>"

section \<open>Sums that need no rounding\<close>

text \<open>
  \<open>the_fin\<close> is the value of a finite number. A number is on the grid \<open>k\<close> when it is
  finite and a whole multiple of \<open>2\<^sup>-\<^sup>k\<close>. A list of numbers sums exactly on the grid
  \<open>k\<close> when \<open>k\<close> is at most 1074, every number is on the grid, and their magnitudes
  add up to less than \<open>2\<^sup>5\<^sup>3\<close> steps of the grid. Whole hours and amounts are on the
  grid 0, quarter hours on the grid 2; a tenth of an hour is on no grid.
\<close>

definition the_fin :: "jsnum \<Rightarrow> rat" where
  "the_fin x = (case x of Fin a \<Rightarrow> a | _ \<Rightarrow> 0)"

definition on_grid :: "nat \<Rightarrow> jsnum \<Rightarrow> bool" where
  "on_grid k x = (case x of Fin a \<Rightarrow> of_int \<lfloor>a * 2 ^ k\<rfloor> = a * 2 ^ k | _ \<Rightarrow> False)"

definition sums_exactly :: "nat \<Rightarrow> jsnum list \<Rightarrow> bool" where
  "sums_exactly k xs =
     (k \<le> 1074 \<and> list_all (on_grid k) xs \<and> sum_list (map (\<lambda>x. \<bar>the_fin x\<bar>) xs) * 2 ^ k < 2 ^ 53)"

text \<open>
  A product is zero or in the normal range of binary64 when doubling it neither leaves
  the range of the finite numbers nor starts in the subnormal numbers, where the spacing
  of binary64 no longer halves.
\<close>

definition normal_or_zero :: "rat \<Rightarrow> bool" where
  "normal_or_zero x = (x = 0 \<or> (2 powi (- 1022) \<le> \<bar>x\<bar> \<and> \<bar>x\<bar> < 2 powi 1022))"

text \<open>What a group of the breakdown says about its entries, its hours, its value.\<close>

definition group_entries :: "ClientBreakdown \<Rightarrow> int \<times> string \<times> nat" where
  "group_entries g = (cb_clientId g, cb_clientName g, cb_entries g)"

definition group_hours :: "ClientBreakdown \<Rightarrow> int \<times> jsnum" where
  "group_hours g = (cb_clientId g, cb_hours g)"

definition group_value :: "ClientBreakdown \<Rightarrow> int \<times> jsnum" where
  "group_value g = (cb_clientId g, cb_value g)"

section \<open>Facts about rounding\<close>

lemma pow2_le_of_int: "2 ^ k \<le> n \<Longrightarrow> (2::rat) ^ k \<le> of_int n"
proof -
  assume "2 ^ k \<le> n"
  then have "(of_int (2 ^ k) :: rat) \<le> of_int n"
    by (simp only: of_int_le_iff)
  then show ?thesis by simp
qed

lemma of_int_less_pow2: "n < 2 ^ k \<Longrightarrow> (of_int n :: rat) + 1 \<le> 2 ^ k"
proof -
  assume "n < 2 ^ k"
  then have "n + 1 \<le> 2 ^ k" by simp
  then have "(of_int (n + 1) :: rat) \<le> of_int (2 ^ k)"
    by (simp only: of_int_le_iff)
  then show ?thesis by simp
qed

lemma powi_pos [simp]: "(0::rat) < 2 powi k"
  by (simp add: power_int_def)

lemma ilog2_bounds:
  assumes "0 < x"
  shows "2 powi (ilog2 x) \<le> x \<and> x < 2 powi (ilog2 x + 1)"
proof (cases "1 \<le> x")
  case True
  define n where "n = \<lfloor>x\<rfloor>"
  have n: "0 < n" "of_int n \<le> x" "x < of_int n + 1"
    using True floor_correct[of x] by (auto simp: n_def)
  have b: "2 ^ nat (bitlen n - 1) \<le> n" "n < 2 ^ nat (bitlen n)"
    using bitlen_bounds[OF n(1)] by simp_all
  have b1: "1 \<le> bitlen n"
    using n(1) by (auto simp: bitlen_alt_def)
  have il: "ilog2 x = bitlen n - 1"
    using True by (simp add: ilog2_def n_def)
  have p: "(2::rat) powi (bitlen n - 1) = 2 ^ nat (bitlen n - 1)"
    "(2::rat) powi (bitlen n - 1 + 1) = 2 ^ nat (bitlen n)"
    using b1 by (simp_all add: power_int_def)
  have "(2::rat) ^ nat (bitlen n - 1) \<le> of_int n"
    by (rule pow2_le_of_int[OF b(1)])
  also have "\<dots> \<le> x"
    by (rule n(2))
  finally have lo: "2 powi (bitlen n - 1) \<le> x"
    by (simp only: p)
  have "x < of_int n + 1"
    by (rule n(3))
  also have "\<dots> \<le> 2 ^ nat (bitlen n)"
    by (rule of_int_less_pow2[OF b(2)])
  finally have hi: "x < 2 powi (bitlen n - 1 + 1)"
    by (simp only: p)
  show ?thesis
    using lo hi by (simp only: il)
next
  case False
  define y where "y = 1 / x"
  define n where "n = \<lceil>y\<rceil> - 1"
  have y: "1 < y"
    using assms False by (simp add: y_def)
  have n: "0 < n" "of_int n < y" "y \<le> of_int n + 1"
    using y ceiling_correct[of y] by (auto simp: n_def less_ceiling_iff)
  have b: "2 ^ nat (bitlen n - 1) \<le> n" "n < 2 ^ nat (bitlen n)"
    using bitlen_bounds[OF n(1)] by simp_all
  have b1: "1 \<le> bitlen n"
    using n(1) by (auto simp: bitlen_alt_def)
  have il: "ilog2 x = - bitlen n"
    using False by (simp add: ilog2_def n_def y_def)
  have p: "(2::rat) powi (bitlen n - 1) = 2 ^ nat (bitlen n - 1)"
    "(2::rat) powi (bitlen n) = 2 ^ nat (bitlen n)"
    using b1 by (simp_all add: power_int_def)
  have "(2::rat) ^ nat (bitlen n - 1) \<le> of_int n"
    by (rule pow2_le_of_int[OF b(1)])
  also have "\<dots> < y"
    by (rule n(2))
  finally have lo: "2 powi (bitlen n - 1) < y"
    by (simp only: p)
  have "y \<le> of_int n + 1"
    by (rule n(3))
  also have "\<dots> \<le> 2 ^ nat (bitlen n)"
    by (rule of_int_less_pow2[OF b(2)])
  finally have hi: "y \<le> 2 powi (bitlen n)"
    by (simp only: p)
  have x: "x = 1 / y"
    using assms by (simp add: y_def)
  have "2 powi (- bitlen n) \<le> x"
    unfolding x power_int_minus_divide using hi y
    by (intro divide_left_mono) simp_all
  moreover have "x < 2 powi (- bitlen n + 1)"
  proof -
    have "1 / y < 1 / 2 powi (bitlen n - 1)"
      using lo y by (intro divide_strict_left_mono) simp_all
    also have "1 / 2 powi (bitlen n - 1) = (2::rat) powi (- (bitlen n - 1))"
      by (rule power_int_minus_divide[symmetric])
    finally show ?thesis
      by (simp add: x)
  qed
  ultimately show ?thesis
    by (simp add: il)
qed

lemma powi_less_cancel: "(2::rat) powi a < 2 powi b \<Longrightarrow> a < b"
proof (rule ccontr)
  assume l: "(2::rat) powi a < 2 powi b" and "\<not> a < b"
  then have "b \<le> a" by simp
  then have "(2::rat) powi b \<le> 2 powi a"
    by (rule power_int_increasing) simp
  with l show False by simp
qed

lemma ilog2_unique:
  assumes "0 < x" "2 powi e \<le> x" "x < 2 powi (e + 1)"
  shows "ilog2 x = e"
proof -
  have b: "2 powi (ilog2 x) \<le> x" "x < 2 powi (ilog2 x + 1)"
    using ilog2_bounds[OF assms(1)] by simp_all
  have "(2::rat) powi e < 2 powi (ilog2 x + 1)"
    using assms(2) b(2) by simp
  then have 1: "e < ilog2 x + 1"
    by (rule powi_less_cancel)
  have "(2::rat) powi (ilog2 x) < 2 powi (e + 1)"
    using assms(3) b(1) by simp
  then have 2: "ilog2 x < e + 1"
    by (rule powi_less_cancel)
  show ?thesis
    using 1 2 by simp
qed

lemma round_half_even_of_int [simp]: "round_half_even (of_int n) = n"
  by (simp add: round_half_even_def)

lemma round64_representable:
  assumes "\<bar>m\<bar> < 2 ^ 53" "- 1074 \<le> q" "\<bar>of_int m\<bar> * 2 powi q < (2::rat) ^ 1024"
  shows "round64 (of_int m * 2 powi q) = Fin (of_int m * 2 powi q)"
proof (cases "m = 0")
  case True
  then show ?thesis by (simp add: round64_def)
next
  case False
  define x :: rat where "x = of_int m * 2 powi q"
  have x0: "x \<noteq> 0"
    using False by (simp add: x_def)
  have ax: "\<bar>x\<bar> = \<bar>of_int m\<bar> * 2 powi q"
    by (simp add: x_def abs_mult)
  have "\<bar>of_int m :: rat\<bar> < 2 ^ 53"
  proof -
    have "(of_int \<bar>m\<bar> :: rat) < of_int (2 ^ 53)"
      using assms(1) by (simp only: of_int_less_iff)
    then show ?thesis by simp
  qed
  then have "\<bar>x\<bar> < 2 ^ 53 * 2 powi q"
    unfolding ax by (intro mult_strict_right_mono) simp_all
  also have "(2::rat) ^ 53 * 2 powi q = 2 powi (q + 53)"
    by (simp add: power_int_add)
  finally have up: "\<bar>x\<bar> < 2 powi (q + 53)" .
  have "2 powi (ilog2 \<bar>x\<bar>) \<le> \<bar>x\<bar>"
    using ilog2_bounds[of "\<bar>x\<bar>"] x0 by simp
  with up have "(2::rat) powi (ilog2 \<bar>x\<bar>) < 2 powi (q + 53)"
    by simp
  then have "ilog2 \<bar>x\<bar> < q + 53"
    by (rule powi_less_cancel)
  then have q0: "max (ilog2 \<bar>x\<bar> - 52) (- 1074) \<le> q"
    using assms(2) by simp
  define q0 where "q0 = max (ilog2 \<bar>x\<bar> - 52) (- 1074)"
  have d: "0 \<le> q - q0"
    using q0 by (simp add: q0_def)
  have "x / 2 powi q0 = of_int m * 2 powi (q - q0)"
    by (simp add: x_def power_int_diff)
  also have "\<dots> = of_int (m * 2 ^ nat (q - q0))"
    using d by (simp add: power_int_def)
  finally have r: "round_half_even (x / 2 powi q0) = m * 2 ^ nat (q - q0)"
    by (simp only: round_half_even_of_int)
  have y: "of_int (round_half_even (x / 2 powi q0)) * 2 powi q0 = x"
  proof -
    have "of_int (m * 2 ^ nat (q - q0)) * 2 powi q0 = of_int m * (2 powi (q - q0) * 2 powi q0 :: rat)"
      using d by (simp add: power_int_def)
    also have "(2 powi (q - q0) * 2 powi q0 :: rat) = 2 powi q"
      by (simp add: power_int_add[symmetric])
    finally have "of_int (m * 2 ^ nat (q - q0)) * 2 powi q0 = x"
      by (simp only: x_def)
    then show ?thesis
      by (simp only: r)
  qed
  have "\<not> 2 ^ 1024 \<le> \<bar>x\<bar>"
    using assms(3) by (simp add: ax)
  then have "round64 x = Fin x"
    using x0 y by (simp add: round64_def Let_def q0_def[symmetric])
  then show ?thesis
    by (simp add: x_def)
qed

lemma round64_of_int:
  assumes "\<bar>n\<bar> < 2 ^ 53"
  shows "round64 (of_int n) = Fin (of_int n)"
proof -
  have "\<bar>of_int n :: rat\<bar> < 2 ^ 1024"
  proof -
    have "(of_int \<bar>n\<bar> :: rat) < of_int (2 ^ 53)"
      using assms by (simp only: of_int_less_iff)
    also have "(of_int (2 ^ 53) :: rat) < 2 ^ 1024"
      by simp
    finally show ?thesis by simp
  qed
  then show ?thesis
    using round64_representable[of n 0] assms by simp
qed

lemma round64_numeral [simp]:
  "(numeral k :: int) < 2 ^ 53 \<Longrightarrow> round64 (numeral k) = Fin (numeral k)"
  "(numeral k :: int) < 2 ^ 53 \<Longrightarrow> round64 (- numeral k) = Fin (- numeral k)"
  "round64 0 = Fin 0" "round64 1 = Fin 1" "round64 (- 1) = Fin (- 1)"
  using round64_of_int[of "numeral k"] round64_of_int[of "- numeral k"] round64_of_int[of 1]
    round64_of_int[of "- 1"] round64_of_int[of 0]
  by simp_all

lemma round_half_even_nearest:
  assumes "2 * \<bar>y - of_int m\<bar> < 1 \<or> (2 * \<bar>y - of_int m\<bar> = 1 \<and> even m)"
  shows "round_half_even y = m"
proof -
  consider (lo) "of_int m \<le> y" "y < of_int m + 1 / 2"
    | (hi) "y < of_int m" "of_int m - 1 / 2 < y"
    | (tie_up) "y = of_int m + 1 / 2" "even m"
    | (tie_down) "y = of_int m - 1 / 2" "even m"
    using assms by (cases "of_int m \<le> y") (auto simp: abs_if split: if_splits)
  then show ?thesis
  proof cases
    case lo
    then have "\<lfloor>y\<rfloor> = m" by (intro floor_unique) auto
    with lo show ?thesis by (simp add: round_half_even_def Let_def)
  next
    case hi
    then have "\<lfloor>y\<rfloor> = m - 1" by (intro floor_unique) auto
    with hi show ?thesis by (simp add: round_half_even_def Let_def)
  next
    case tie_up
    then have "\<lfloor>y\<rfloor> = m" by (intro floor_unique) auto
    with tie_up show ?thesis by (simp add: round_half_even_def Let_def)
  next
    case tie_down
    then have "\<lfloor>y\<rfloor> = m - 1" by (intro floor_unique) auto
    with tie_down show ?thesis by (simp add: round_half_even_def Let_def)
  qed
qed

lemma ilog2_less:
  assumes "0 < x" "x < 2 powi n"
  shows "ilog2 x < n"
proof -
  have "2 powi (ilog2 x) \<le> x"
    using ilog2_bounds[OF assms(1)] by simp
  with assms(2) have "(2::rat) powi (ilog2 x) < 2 powi n" by simp
  then show ?thesis by (rule powi_less_cancel)
qed

lemma ilog2_ge:
  assumes "0 < x" "2 powi n \<le> x"
  shows "n \<le> ilog2 x"
proof -
  have "x < 2 powi (ilog2 x + 1)"
    using ilog2_bounds[OF assms(1)] by simp
  with assms(2) have "(2::rat) powi n < 2 powi (ilog2 x + 1)" by simp
  then have "n < ilog2 x + 1" by (rule powi_less_cancel)
  then show ?thesis by simp
qed

lemma round64_nearest:
  fixes a b m :: int and k :: nat
  assumes b: "0 < b" and k: "k \<le> 1074"
    and lo: "2 ^ 52 * b \<le> \<bar>a\<bar> * 2 ^ k \<or> k = 1074"
    and hi: "\<bar>a\<bar> * 2 ^ k < 2 ^ 53 * b"
    and near: "2 * \<bar>a * 2 ^ k - m * b\<bar> < b \<or> (2 * \<bar>a * 2 ^ k - m * b\<bar> = b \<and> even m)"
  shows "round64 (of_int a / of_int b) = Fin (of_int m / 2 ^ k)"
proof (cases "a = 0")
  case True
  have "m = 0"
  proof (rule ccontr)
    assume "m \<noteq> 0"
    then have "1 \<le> \<bar>m\<bar>" by simp
    then have "b \<le> \<bar>m\<bar> * b" using b by simp
    then have "b \<le> \<bar>m * b\<bar>" using b by (simp add: abs_mult)
    with near True b show False by auto
  qed
  with True show ?thesis by (simp add: round64_def)
next
  case False
  define x :: rat where "x = of_int a / of_int b"
  define Y :: rat where "Y = of_int (a * 2 ^ k) / of_int b"
  have bpos: "(0::rat) < of_int b" using b by simp
  have x0: "x \<noteq> 0" using False b by (simp add: x_def)
  have xY: "x * 2 ^ k = Y" by (simp add: x_def Y_def)
  have ax: "\<bar>x\<bar> * 2 ^ k = of_int (\<bar>a\<bar> * 2 ^ k) / of_int b"
    using b by (simp add: x_def abs_mult)
  have diff: "2 * \<bar>Y - of_int m\<bar> = of_int (2 * \<bar>a * 2 ^ k - m * b\<bar>) / of_int b"
  proof -
    have "Y - of_int m = of_int (a * 2 ^ k - m * b) / of_int b"
      using b by (simp add: Y_def field_simps)
    then have "\<bar>Y - of_int m\<bar> = of_int \<bar>a * 2 ^ k - m * b\<bar> / of_int b"
      using b by (simp add: abs_mult)
    then show ?thesis by simp
  qed
  have r: "round_half_even Y = m"
  proof (rule round_half_even_nearest)
    from near show "2 * \<bar>Y - of_int m\<bar> < 1 \<or> (2 * \<bar>Y - of_int m\<bar> = 1 \<and> even m)"
    proof
      assume "2 * \<bar>a * 2 ^ k - m * b\<bar> < b"
      then have "(of_int (2 * \<bar>a * 2 ^ k - m * b\<bar>) :: rat) < of_int b"
        by (simp only: of_int_less_iff)
      then have "2 * \<bar>Y - of_int m\<bar> < 1"
        unfolding diff using bpos by (simp add: divide_less_eq)
      then show ?thesis ..
    next
      assume t: "2 * \<bar>a * 2 ^ k - m * b\<bar> = b \<and> even m"
      then have "2 * \<bar>Y - of_int m\<bar> = 1"
        unfolding diff using bpos by simp
      with t show ?thesis by simp
    qed
  qed
  have up: "\<bar>x\<bar> < 2 powi (53 - int k)"
  proof -
    have "(of_int (\<bar>a\<bar> * 2 ^ k) :: rat) < of_int (2 ^ 53 * b)"
      using hi by (simp only: of_int_less_iff)
    then have "\<bar>x\<bar> * 2 ^ k < 2 ^ 53"
      unfolding ax using bpos by (simp add: divide_less_eq)
    then have "\<bar>x\<bar> < 2 ^ 53 / 2 ^ k"
      by (simp add: less_divide_eq)
    also have "(2::rat) ^ 53 / 2 ^ k = 2 powi (53 - int k)"
      by (simp add: power_int_diff)
    finally show ?thesis .
  qed
  have q1: "ilog2 \<bar>x\<bar> - 52 \<le> - int k"
    using ilog2_less[OF _ up] x0 by simp
  have q: "max (ilog2 \<bar>x\<bar> - 52) (- 1074) = - int k"
  proof (cases "k = 1074")
    case True
    with q1 show ?thesis by simp
  next
    case False
    with lo have "2 ^ 52 * b \<le> \<bar>a\<bar> * 2 ^ k" by simp
    then have "(of_int (2 ^ 52 * b) :: rat) \<le> of_int (\<bar>a\<bar> * 2 ^ k)"
      by (simp only: of_int_le_iff)
    then have "2 ^ 52 \<le> \<bar>x\<bar> * 2 ^ k"
      unfolding ax using bpos by (simp add: le_divide_eq)
    then have "2 ^ 52 / 2 ^ k \<le> \<bar>x\<bar>"
      by (simp add: divide_le_eq)
    moreover have "(2::rat) ^ 52 / 2 ^ k = 2 powi (52 - int k)"
      by (simp add: power_int_diff)
    ultimately have "2 powi (52 - int k) \<le> \<bar>x\<bar>" by simp
    then have "52 - int k \<le> ilog2 \<bar>x\<bar>"
      using ilog2_ge[of "\<bar>x\<bar>"] x0 by simp
    with q1 k show ?thesis by simp
  qed
  have p: "(2::rat) powi (- int k) = 1 / 2 ^ k"
    by (simp add: power_int_minus_divide)
  have xq: "x / 2 powi (- int k) = Y"
    using xY by (simp add: p)
  have mb: "\<bar>m\<bar> \<le> 2 ^ 53"
  proof -
    have "\<bar>m * b\<bar> \<le> \<bar>a * 2 ^ k\<bar> + \<bar>a * 2 ^ k - m * b\<bar>" by simp
    also have "\<dots> < 2 ^ 53 * b + b"
      using near hi b by (auto simp: abs_mult)
    finally have "\<bar>m\<bar> * b < (2 ^ 53 + 1) * b"
      using b by (simp add: abs_mult algebra_simps)
    then have "\<bar>m\<bar> < 2 ^ 53 + 1"
      using b by simp
    then show ?thesis by simp
  qed
  have "\<bar>of_int m / 2 ^ k :: rat\<bar> \<le> \<bar>of_int m\<bar>"
    by (simp add: abs_divide divide_le_eq_1 mult_le_cancel_left1 field_simps)
  also have "\<bar>of_int m :: rat\<bar> \<le> 2 ^ 53"
  proof -
    have "(of_int \<bar>m\<bar> :: rat) \<le> of_int (2 ^ 53)"
      using mb by (simp only: of_int_le_iff)
    then show ?thesis by simp
  qed
  also have "(2::rat) ^ 53 < 2 ^ 1024" by simp
  finally have fin: "\<not> 2 ^ 1024 \<le> \<bar>of_int m / 2 ^ k :: rat\<bar>" by simp
  have "round64 x =
      (if 2 ^ 1024 \<le> \<bar>of_int (round_half_even (x / 2 powi (- int k))) * 2 powi (- int k) :: rat\<bar>
       then (if 0 < x then PInf else NInf)
       else Fin (of_int (round_half_even (x / 2 powi (- int k))) * 2 powi (- int k)))"
    using x0 by (simp only: round64_def Let_def q if_False)
  also have "\<dots> = Fin (of_int m / 2 ^ k)"
    unfolding xq r using fin by (simp add: p)
  finally show ?thesis by (simp only: x_def)
qed



lemma round_half_even_abs_le:
  assumes "\<bar>y\<bar> < of_int n"
  shows "\<bar>round_half_even y\<bar> \<le> n"
proof -
  have "of_int \<lfloor>y\<rfloor> \<le> y" "y < of_int \<lfloor>y\<rfloor> + 1" using floor_correct[of y] by simp_all
  have a: "y < of_int n" and b: "of_int (- n) < y" using assms by simp_all
  have "\<lfloor>y\<rfloor> < n" using a by (simp add: floor_less_iff)
  moreover have "- n \<le> \<lfloor>y\<rfloor>" using b by (simp add: le_floor_iff)
  moreover have "round_half_even y = \<lfloor>y\<rfloor> \<or> round_half_even y = \<lfloor>y\<rfloor> + 1"
    by (auto simp: round_half_even_def Let_def)
  ultimately show ?thesis by auto
qed

text \<open>An integer of magnitude at most \<open>2\<^sup>5\<^sup>3\<close> times a power of two.\<close>

lemma round64_representable_le:
  fixes m q :: int
  assumes m: "\<bar>m\<bar> \<le> 2 ^ 53" and q: "- 1074 \<le> q"
    and fin: "\<bar>of_int m :: rat\<bar> * 2 powi q < 2 ^ 1024"
  shows "round64 (of_int m * 2 powi q) = Fin (of_int m * 2 powi q)"
proof (cases "\<bar>m\<bar> < 2 ^ 53")
  case True
  then show ?thesis using q fin by (rule round64_representable)
next
  case False
  with m have "\<bar>m\<bar> = 2 ^ 53" by simp
  then consider "m = 2 ^ 53" | "m = - (2 ^ 53)" by (auto simp: abs_if split: if_splits)
  then show ?thesis
  proof cases
    case 1
    have e: "(of_int m :: rat) * 2 powi q = of_int 1 * 2 powi (q + 53)"
      unfolding 1 by (simp add: power_int_add)
    have "\<bar>of_int 1 :: rat\<bar> * 2 powi (q + 53) < 2 ^ 1024"
      using fin unfolding 1 by (simp add: power_int_add)
    from round64_representable[of 1 "q + 53", OF _ _ this] q show ?thesis unfolding e by simp
  next
    case 2
    have e: "(of_int m :: rat) * 2 powi q = of_int (- 1) * 2 powi (q + 53)"
      unfolding 2 by (simp add: power_int_add)
    have "\<bar>of_int (- 1) :: rat\<bar> * 2 powi (q + 53) < 2 ^ 1024"
      using fin unfolding 2 by (simp add: power_int_add)
    from round64_representable[of "- 1" "q + 53", OF _ _ this] q show ?thesis unfolding e by simp
  qed
qed

text \<open>
  In the normal range, doubling commutes with rounding: the rounded double is the double
  of the rounded value, and that double is itself a binary64 value.
\<close>

lemma round64_double:
  assumes lo: "2 powi (- 1022) \<le> \<bar>x\<bar>" and hi: "\<bar>x\<bar> < 2 powi 1022"
  shows "\<exists>y. round64 x = Fin y \<and> round64 (2 * x) = Fin (2 * y) \<and> round64 (2 * y) = Fin (2 * y)"
proof -
  have x0: "x \<noteq> 0" using lo powi_pos[of "- 1022"] by auto
  then have ax: "0 < \<bar>x\<bar>" by simp
  define e where "e = ilog2 \<bar>x\<bar>"
  have eb: "2 powi e \<le> \<bar>x\<bar>" "\<bar>x\<bar> < 2 powi (e + 1)"
    using ilog2_bounds[OF ax] by (simp_all add: e_def)
  have e_lo: "- 1022 \<le> e"
  proof -
    have "(2::rat) powi (- 1022) < 2 powi (e + 1)" using lo eb(2) by simp
    then have "- 1022 < e + 1" by (rule powi_less_cancel)
    then show ?thesis by simp
  qed
  have e_hi: "e < 1022"
  proof -
    have "(2::rat) powi e < 2 powi 1022" using hi eb(1) by simp
    then show ?thesis by (rule powi_less_cancel)
  qed
  define q where "q = e - 52"
  have q: "max (ilog2 \<bar>x\<bar> - 52) (- 1074) = q" using e_lo by (simp add: q_def e_def)
  define M where "M = round_half_even (x / 2 powi q)"
  define y where "y = (of_int M :: rat) * 2 powi q"
  have "\<bar>x / 2 powi q\<bar> < 2 powi (e + 1) / 2 powi q"
    using eb(2) by (simp add: divide_strict_right_mono)
  also have "\<dots> = 2 powi 53" by (simp add: q_def power_int_diff[symmetric])
  finally have "\<bar>x / 2 powi q\<bar> < of_int (2 ^ 53)" by simp
  then have M: "\<bar>M\<bar> \<le> 2 ^ 53" unfolding M_def by (rule round_half_even_abs_le)
  have "\<bar>y\<bar> = of_int \<bar>M\<bar> * 2 powi q" by (simp add: y_def abs_mult)
  also have "\<dots> \<le> of_int (2 ^ 53) * 2 powi q"
    by (rule mult_right_mono) (use M in simp_all)
  also have "\<dots> = 2 powi (e + 1)" by (simp add: q_def power_int_add power_int_diff)
  finally have ay: "\<bar>y\<bar> \<le> 2 powi (e + 1)" .
  have "(2::rat) powi (e + 1) \<le> 2 powi 1022"
    by (rule power_int_increasing) (use e_hi in simp_all)
  with ay have ay': "\<bar>y\<bar> \<le> 2 powi 1022" by simp
  have small: "\<bar>y\<bar> < 2 ^ 1024"
  proof -
    have "(2::rat) powi 1022 < 2 powi 1024" by (rule power_int_strict_increasing) simp_all
    with ay' show ?thesis by simp
  qed
  have small2: "\<bar>2 * y\<bar> < 2 ^ 1024"
  proof -
    have "\<bar>2 * y\<bar> \<le> 2 * 2 powi 1022" using ay' by simp
    also have "\<dots> = (2::rat) powi 1023" by (simp add: power_int_add)
    also have "\<dots> < 2 powi 1024" by (rule power_int_strict_increasing) simp_all
    finally show ?thesis by simp
  qed
  have r1: "round64 x = Fin y"
    using x0 small by (simp only: round64_def Let_def q) (simp add: M_def y_def)
  have "2 powi (e + 1) \<le> \<bar>2 * x\<bar>" "\<bar>2 * x\<bar> < 2 powi (e + 1 + 1)"
    using eb by (simp_all add: power_int_add)
  moreover have "0 < \<bar>2 * x\<bar>" using x0 by simp
  ultimately have "ilog2 \<bar>2 * x\<bar> = e + 1" by (intro ilog2_unique)
  then have q2: "max (ilog2 \<bar>2 * x\<bar> - 52) (- 1074) = q + 1" using e_lo by (simp add: q_def)
  have same: "2 * x / 2 powi (q + 1) = x / 2 powi q" by (simp add: power_int_add)
  have y2: "(of_int M :: rat) * 2 powi (q + 1) = 2 * y" by (simp add: y_def power_int_add)
  have r2: "round64 (2 * x) = Fin (2 * y)"
    using x0 small2
    by (simp only: round64_def Let_def q2 same) (simp add: M_def[symmetric] y2)
  have "\<bar>of_int M :: rat\<bar> * 2 powi (q + 1) < 2 ^ 1024"
    using small2 by (simp add: y2[symmetric] abs_mult)
  moreover have "- 1074 \<le> q + 1" using e_lo by (simp add: q_def)
  ultimately have "round64 (of_int M * 2 powi (q + 1)) = Fin (of_int M * 2 powi (q + 1))"
    by (intro round64_representable_le M)
  then have r3: "round64 (2 * y) = Fin (2 * y)" by (simp only: y2)
  from r1 r2 r3 show ?thesis by blast
qed

section \<open>Whole numbers\<close>






section \<open>Reading a well-formed time\<close>


















section \<open>The duration of a well-formed entry\<close>



section \<open>Evaluating the parsers on concrete text\<close>

lemmas parse_defs = split_numbers_def Number_str_def trim_def is_ws_def non_decimal_def
  str_decimal_def unsigned_decimal_def is_digit_def digit_in_def hex_digits_def
  exponent_part_def digits_value_def digit_of_def pow10_def parseFloat_def elem_num_def

text \<open>
  Twenty minutes are a third of an hour, which binary64 does not hold: both calculations
  return \<open>0.3333333333333333\<close>, the binary64 number nearest to a third.
\<close>

lemma round64_third: "round64 (1 / 3) = Fin (6004799503160661 / 18014398509481984)"
  using round64_nearest[of 3 54 1 6004799503160661] by simp

lemma twenty_minutes:
  "calculateHours ''08:00'' ''08:20'' None None = Fin (6004799503160661 / 18014398509481984)"
  "fst (calculateHoursAndValue ''08:00'' ''08:20'' ''142'' None None)
     = Fin (6004799503160661 / 18014398509481984)"
  by (simp_all add: calculateHours_def timeToMinutes_def calculateHoursAndValue_def Let_def
      parse_defs js_sub_def str_truthy_def round64_third)

section \<open>An end before the start\<close>

text \<open>
  Claim C2 says that every implementation of the duration calculation clamps a negative
  duration to zero. \<open>MemStorage.calculateHoursAndValue\<close> does, through \<open>Math.max\<close>;
  \<open>DatabaseStorage.calculateHours\<close> returns the quotient as it is. For a start at 17:00
  and an end at 08:00 the database store computes minus nine hours, the in-memory store
  zero.
\<close>

theorem database_hours_not_clamped:
  "calculateHours ''17:00'' ''08:00'' None None = Fin (- 9)
   \<and> fst (calculateHoursAndValue ''17:00'' ''08:00'' ''142'' None None) = Fin 0"
  by (simp add: calculateHours_def timeToMinutes_def calculateHoursAndValue_def Let_def
      parse_defs js_sub_def str_truthy_def)

section \<open>Stale totals after an update in memory\<close>

text \<open>
  Claim C3 says that after an update that changes a time field or the service, the stored
  totals are the calculation applied to the resulting entry. \<open>MemStorage.updateTimeEntry\<close>
  recalculates without the break, and does not recalculate at all when only the break
  changes. In the small store, moving the end of the entry to 18:00 stores ten hours
  where the resulting entry (08:00 to 18:00, break 12:00 to 13:00) has nine; moving the
  end of the break to 14:00 keeps eight hours where the resulting entry has seven.
\<close>

theorem mem_update_ignores_break:
  "mem_updateTimeEntry store1 1 (no_update\<lparr> u_endTime := Some ''18:00'' \<rparr>)
     = (Some (entry1\<lparr> endTime := ''18:00'', totalHours := Fin 10, totalValue := Fin 1420 \<rparr>),
        store1\<lparr> timeEntries :=
          [(1, entry1\<lparr> endTime := ''18:00'', totalHours := Fin 10, totalValue := Fin 1420 \<rparr>)] \<rparr>)
   \<and> calculateHoursAndValue ''08:00'' ''18:00'' ''142'' (Some ''12:00'') (Some ''13:00'')
     = (Fin 9, Fin 1278)
   \<and> mem_updateTimeEntry store1 1
        (no_update\<lparr> u_breakStartTime := Val ''12:00'', u_breakEndTime := Val ''14:00'' \<rparr>)
     = (Some (entry1\<lparr> breakEndTime := Some ''14:00'' \<rparr>),
        store1\<lparr> timeEntries := [(1, entry1\<lparr> breakEndTime := Some ''14:00'' \<rparr>)] \<rparr>)
   \<and> totalHours (entry1\<lparr> breakEndTime := Some ''14:00'' \<rparr>) = Fin 8
   \<and> totalValue (entry1\<lparr> breakEndTime := Some ''14:00'' \<rparr>) = Fin 1136
   \<and> calculateHoursAndValue ''08:00'' ''17:00'' ''142'' (Some ''12:00'') (Some ''14:00'')
     = (Fin 7, Fin 994)"
  by (simp add: mem_updateTimeEntry_def store1_def entry1_def service1_def no_update_def spread_def
      put_def put_nullable_def str_truthy_def int_truthy_def int_or_def str_or_def
      calculateHoursAndValue_def Let_def parse_defs js_sub_def)

section \<open>A new entry for a service that does not exist\<close>

text \<open>
  Claim C9. When the service id of the request is not a key of the services map,
  \<open>MemStorage.createTimeEntry\<close> fails with the error "Service not found" and the store
  is the store it was called on: no entry is added and the id counter keeps its value.
\<close>

theorem mem_createTimeEntry_service_missing:
  assumes "services st (i_serviceId ins) = None"
  shows "mem_createTimeEntry st ins = (Inl ServiceNotFound, st)"
  using assms by (simp add: mem_createTimeEntry_def)

theorem mem_createTimeEntry_service_missing_witness:
  "services store1 (i_serviceId (insert1\<lparr> i_serviceId := 99 \<rparr>)) = None
   \<and> mem_createTimeEntry store1 (insert1\<lparr> i_serviceId := 99 \<rparr>) = (Inl ServiceNotFound, store1)
   \<and> timeEntries store1 = [(1, entry1)] \<and> currentTimeEntryId store1 = 2"
  using mem_createTimeEntry_service_missing [of store1 "insert1\<lparr> i_serviceId := 99 \<rparr>"]
  by (simp add: store1_def insert1_def)

section \<open>Updates that touch no time field\<close>

lemma spread_keeps [simp]:
  "entryId (spread row upd) = entryId row"
  "totalHours (spread row upd) = totalHours row"
  "totalValue (spread row upd) = totalValue row"
  by (simp_all add: spread_def)

text \<open>
  Claim C10. When the update data has none of the keys \<open>startTime\<close>, \<open>endTime\<close>,
  \<open>breakStartTime\<close>, \<open>breakEndTime\<close> and \<open>serviceId\<close>,
  \<open>DatabaseStorage.updateTimeEntry\<close> leaves \<open>totalHours\<close> and \<open>totalValue\<close> of every
  row as they were, changes no row but the one with the given id, and in that row
  changes no column whose key the update data does not have.
\<close>

theorem db_update_without_time_fields:
  assumes "u_startTime upd = None" "u_endTime upd = None" "u_breakStartTime upd = Absent"
    "u_breakEndTime upd = Absent" "u_serviceId upd = None"
  shows "fst (db_updateTimeEntry db eid upd)
           = Inr (db_getTimeEntry (snd (db_updateTimeEntry db eid upd)) eid)
       \<and> db_clients (snd (db_updateTimeEntry db eid upd)) = db_clients db
       \<and> db_services (snd (db_updateTimeEntry db eid upd)) = db_services db
       \<and> time_entries_id_seq (snd (db_updateTimeEntry db eid upd)) = time_entries_id_seq db
       \<and> length (db_timeEntries (snd (db_updateTimeEntry db eid upd))) = length (db_timeEntries db)
       \<and> (\<forall>i < length (db_timeEntries db).
            (let old = db_timeEntries db ! i;
                 new = db_timeEntries (snd (db_updateTimeEntry db eid upd)) ! i
             in totalHours new = totalHours old \<and> totalValue new = totalValue old
                \<and> entryId new = entryId old \<and> serviceId new = serviceId old
                \<and> startTime new = startTime old \<and> endTime new = endTime old
                \<and> breakStartTime new = breakStartTime old \<and> breakEndTime new = breakEndTime old
                \<and> (entryId old \<noteq> eid \<longrightarrow> new = old)
                \<and> (u_date upd = None \<longrightarrow> date new = date old)
                \<and> (u_consultantId upd = None \<longrightarrow> consultantId new = consultantId old)
                \<and> (u_clientId upd = None \<longrightarrow> clientId new = clientId old)
                \<and> (u_sectorId upd = Absent \<longrightarrow> sectorId new = sectorId old)
                \<and> (u_serviceTypeId upd = Absent \<longrightarrow> serviceTypeId new = serviceTypeId old)
                \<and> (u_projectId upd = Absent \<longrightarrow> projectId new = projectId old)
                \<and> (u_description upd = Absent \<longrightarrow> description new = description old)
                \<and> (u_activityCompleted upd = Absent
                      \<longrightarrow> activityCompleted new = activityCompleted old)
                \<and> (u_deliveryForecast upd = Absent
                      \<longrightarrow> deliveryForecast new = deliveryForecast old)
                \<and> (u_actualDelivery upd = Absent \<longrightarrow> actualDelivery new = actualDelivery old)
                \<and> (u_serviceLocation upd = Absent
                      \<longrightarrow> serviceLocation new = serviceLocation old)))"
proof -
  have no: "\<not> (str_truthy (u_startTime upd) \<or> str_truthy (u_endTime upd)
      \<or> str_truthy (opt_of (u_breakStartTime upd)) \<or> str_truthy (opt_of (u_breakEndTime upd))
      \<or> int_truthy (u_serviceId upd))"
    using assms by (simp add: str_truthy_def int_truthy_def opt_of_def)
  have eq: "db_updateTimeEntry db eid upd
      = (Inr (fst (db_update db eid upd None)), snd (db_update db eid upd None))"
    using no by (simp add: db_updateTimeEntry_def Let_def)
  have rows: "db_timeEntries (snd (db_update db eid upd None))
      = map (\<lambda>row. if entryId row = eid then spread row upd else row) (db_timeEntries db)"
    by (simp add: db_update_def Let_def set_columns_def)
  have frame: "startTime (spread row upd) = startTime row \<and> endTime (spread row upd) = endTime row
      \<and> breakStartTime (spread row upd) = breakStartTime row
      \<and> breakEndTime (spread row upd) = breakEndTime row
      \<and> serviceId (spread row upd) = serviceId row" for row
    using assms by (simp add: spread_def put_def put_nullable_def)
  have other: "(u_date upd = None \<longrightarrow> date (spread row upd) = date row)
      \<and> (u_consultantId upd = None \<longrightarrow> consultantId (spread row upd) = consultantId row)
      \<and> (u_clientId upd = None \<longrightarrow> clientId (spread row upd) = clientId row)
      \<and> (u_sectorId upd = Absent \<longrightarrow> sectorId (spread row upd) = sectorId row)
      \<and> (u_serviceTypeId upd = Absent \<longrightarrow> serviceTypeId (spread row upd) = serviceTypeId row)
      \<and> (u_projectId upd = Absent \<longrightarrow> projectId (spread row upd) = projectId row)
      \<and> (u_description upd = Absent \<longrightarrow> description (spread row upd) = description row)
      \<and> (u_activityCompleted upd = Absent
            \<longrightarrow> activityCompleted (spread row upd) = activityCompleted row)
      \<and> (u_deliveryForecast upd = Absent
            \<longrightarrow> deliveryForecast (spread row upd) = deliveryForecast row)
      \<and> (u_actualDelivery upd = Absent \<longrightarrow> actualDelivery (spread row upd) = actualDelivery row)
      \<and> (u_serviceLocation upd = Absent
            \<longrightarrow> serviceLocation (spread row upd) = serviceLocation row)" for row
    by (simp add: spread_def put_def put_nullable_def)
  have res: "fst (db_update db eid upd None)
      = db_getTimeEntry (snd (db_update db eid upd None)) eid"
    by (simp add: db_update_def db_getTimeEntry_def Let_def)
  have st: "db_clients (snd (db_update db eid upd None)) = db_clients db"
    "db_services (snd (db_update db eid upd None)) = db_services db"
    "time_entries_id_seq (snd (db_update db eid upd None)) = time_entries_id_seq db"
    by (simp_all add: db_update_def Let_def)
  show ?thesis
    unfolding eq fst_conv snd_conv
    using frame other by (simp add: res st rows Let_def)
qed

theorem db_update_without_time_fields_witness:
  "u_startTime (no_update\<lparr> u_projectId := Val 7 \<rparr>) = None
   \<and> u_endTime (no_update\<lparr> u_projectId := Val 7 \<rparr>) = None
   \<and> u_breakStartTime (no_update\<lparr> u_projectId := Val 7 \<rparr>) = Absent
   \<and> u_breakEndTime (no_update\<lparr> u_projectId := Val 7 \<rparr>) = Absent
   \<and> u_serviceId (no_update\<lparr> u_projectId := Val 7 \<rparr>) = None
   \<and> (0::nat) < length (db_timeEntries database1)
   \<and> db_updateTimeEntry database1 1 (no_update\<lparr> u_projectId := Val 7 \<rparr>)
       = (Inr (Some (entry1\<lparr> projectId := Some 7 \<rparr>)),
          database1\<lparr> db_timeEntries := [entry1\<lparr> projectId := Some 7 \<rparr>] \<rparr>)
   \<and> totalHours (db_timeEntries (snd (db_updateTimeEntry database1 1
          (no_update\<lparr> u_projectId := Val 7 \<rparr>))) ! 0) = Fin 8
   \<and> totalValue (db_timeEntries (snd (db_updateTimeEntry database1 1
          (no_update\<lparr> u_projectId := Val 7 \<rparr>))) ! 0) = Fin 1136"
proof -
  let ?upd = "no_update\<lparr> u_projectId := Val 7 \<rparr>"
  have a: "u_startTime ?upd = None" "u_endTime ?upd = None" "u_breakStartTime ?upd = Absent"
    "u_breakEndTime ?upd = Absent" "u_serviceId ?upd = None"
    by (simp_all add: no_update_def)
  have b: "(0::nat) < length (db_timeEntries database1)"
    "db_timeEntries database1 ! 0 = entry1"
    by (simp_all add: database1_def)
  have c: "db_updateTimeEntry database1 1 ?upd
       = (Inr (Some (entry1\<lparr> projectId := Some 7 \<rparr>)),
          database1\<lparr> db_timeEntries := [entry1\<lparr> projectId := Some 7 \<rparr>] \<rparr>)"
    by (simp add: db_updateTimeEntry_def db_update_def set_columns_def Let_def database1_def
        entry1_def no_update_def spread_def put_def put_nullable_def str_truthy_def
        int_truthy_def opt_of_def)
  have d: "totalHours entry1 = Fin 8" "totalValue entry1 = Fin 1136"
    by (simp_all add: entry1_def)
  from db_update_without_time_fields [OF a, of database1 1] b d
  have "totalHours (db_timeEntries (snd (db_updateTimeEntry database1 1 ?upd)) ! 0) = Fin 8
      \<and> totalValue (db_timeEntries (snd (db_updateTimeEntry database1 1 ?upd)) ! 0) = Fin 1136"
    by (simp add: Let_def)
  with a b c show ?thesis by simp
qed

section \<open>A missing service, a missing rate\<close>

text \<open>
  Claim C4 says that every path that computes a monetary value fails with "Service not
  found" when the service or its hourly rate is missing, and never takes the rate as
  zero. \<open>calculateEntryValue\<close> of the routes reads the rate as
  \<open>parseFloat(entry.service.hourlyRate) || 0\<close>: for the entry of the small store and a
  service whose hourly rate is the empty text, the rate does not parse, and the value of
  the eight hours is 0.
\<close>

theorem rate_defaults_to_zero_counterexample:
  "parseFloat (hourlyRate (service1\<lparr> hourlyRate := [] \<rparr>)) = NaN
   \<and> calculateEntryHours entry1 = Fin 8
   \<and> calculateEntryValue entry1 (service1\<lparr> hourlyRate := [] \<rparr>) = Fin 0"
  by (simp add: calculateEntryValue_def calculateEntryHours_def Date_getTime_def Let_def
      entry1_def service1_def parse_defs js_sub_def str_truthy_def num_or_def)

text \<open>
  Claim C4, as amended. \<open>createTimeEntry\<close> of either store fails with "Service not found"
  when the service of the request does not exist, and so does
  \<open>DatabaseStorage.updateTimeEntry\<close> when it recalculates an existing entry whose
  resulting service does not exist. \<open>calculateEntryValue\<close> does not fail: when the hourly
  rate does not parse to a number other than zero, the value is the hours times 0.
\<close>

theorem missing_service_or_rate:
  "(services st (i_serviceId ins) = None
      \<longrightarrow> fst (mem_createTimeEntry st ins) = Inl ServiceNotFound)
   \<and> (db_services db (i_serviceId ins) = None
      \<longrightarrow> fst (db_createTimeEntry db ins) = Inl ServiceNotFound)
   \<and> (db_recalculates upd \<and> db_getTimeEntry db eid = Some existing
        \<and> db_services db (int_or (u_serviceId upd) (serviceId existing)) = None
      \<longrightarrow> db_updateTimeEntry db eid upd = (Inl ServiceNotFound, db))
   \<and> (\<not> num_truthy (parseFloat (hourlyRate service))
      \<longrightarrow> calculateEntryValue entry service = js_mul (calculateEntryHours entry) (Fin 0))"
  by (simp add: mem_createTimeEntry_def db_createTimeEntry_def db_updateTimeEntry_def
      db_recalculates_def calculateEntryValue_def num_or_def Let_def)

theorem missing_service_or_rate_witness:
  "services store1 (i_serviceId (insert1\<lparr> i_serviceId := 99 \<rparr>)) = None
   \<and> db_services database1 (i_serviceId (insert1\<lparr> i_serviceId := 99 \<rparr>)) = None
   \<and> db_recalculates (no_update\<lparr> u_serviceId := Some 99 \<rparr>)
   \<and> db_getTimeEntry database1 1 = Some entry1
   \<and> db_services database1 (int_or (u_serviceId (no_update\<lparr> u_serviceId := Some 99 \<rparr>))
        (serviceId entry1)) = None
   \<and> \<not> num_truthy (parseFloat (hourlyRate (service1\<lparr> hourlyRate := [] \<rparr>)))
   \<and> fst (mem_createTimeEntry store1 (insert1\<lparr> i_serviceId := 99 \<rparr>)) = Inl ServiceNotFound
   \<and> fst (db_createTimeEntry database1 (insert1\<lparr> i_serviceId := 99 \<rparr>)) = Inl ServiceNotFound
   \<and> db_updateTimeEntry database1 1 (no_update\<lparr> u_serviceId := Some 99 \<rparr>)
       = (Inl ServiceNotFound, database1)
   \<and> calculateEntryValue entry1 (service1\<lparr> hourlyRate := [] \<rparr>)
       = js_mul (calculateEntryHours entry1) (Fin 0)"
proof -
  let ?ins = "insert1\<lparr> i_serviceId := 99 \<rparr>"
  let ?upd = "no_update\<lparr> u_serviceId := Some 99 \<rparr>"
  let ?svc = "service1\<lparr> hourlyRate := [] \<rparr>"
  have a: "services store1 (i_serviceId ?ins) = None"
    "db_services database1 (i_serviceId ?ins) = None"
    by (simp_all add: store1_def database1_def)
  have b: "db_recalculates ?upd" "db_getTimeEntry database1 1 = Some entry1"
    "db_services database1 (int_or (u_serviceId ?upd) (serviceId entry1)) = None"
    by (simp_all add: db_recalculates_def int_truthy_def int_or_def database1_def
        db_getTimeEntry_def entry1_def)
  have c: "\<not> num_truthy (parseFloat (hourlyRate ?svc))"
    by (simp add: parse_defs)
  from missing_service_or_rate [of store1 ?ins database1 ?upd 1 entry1 ?svc entry1] a b c
  show ?thesis by simp
qed

section \<open>Malformed time strings\<close>

lemma js_add_NaN [simp]: "js_add x NaN = NaN"
  by (cases x) simp_all

lemma js_sub_NaN [simp]: "js_sub NaN y = NaN" "js_sub x NaN = NaN"
  by (simp_all add: js_sub_def)

lemma js_mul_NaN [simp]: "js_mul x NaN = NaN"
  by (cases x) simp_all

lemma js_div_NaN [simp]: "js_div x NaN = NaN"
  by (cases x) simp_all

lemma Math_max_NaN [simp]: "Math_max x NaN = NaN"
  by (cases x) simp_all

lemma mem_minutes:
  "js_add (js_mul (elem_num (split_numbers t) 0) (Fin 60)) (elem_num (split_numbers t) 1)
     = timeToMinutes t"
  by (simp add: timeToMinutes_def Let_def)

lemma calculateHoursAndValue_eq:
  "calculateHoursAndValue s e rate bs be =
     (Math_max (Fin 0) (calculateHours s e bs be),
      js_mul (Math_max (Fin 0) (calculateHours s e bs be)) (parseFloat rate))"
  by (simp add: calculateHoursAndValue_def calculateHours_def Let_def mem_minutes del: One_nat_def)




lemma corrupt_0900 [simp]: "corrupt_times ''0900'' e bs be"
  by (simp add: corrupt_times_def timeToMinutes_def Let_def parse_defs)

text \<open>
  Some malformed times convert all the same: of \<open>08:30:45\<close> the hours and the minutes
  are read and the seconds dropped, an empty field counts as zero, and no field has a
  range.
\<close>

lemma malformed_times_that_convert:
  "timeToMinutes ''08:30:45'' = Fin 510" "timeToMinutes '':30'' = Fin 30"
  "timeToMinutes ''25:61'' = Fin 1561"
  by (simp_all add: timeToMinutes_def Let_def parse_defs)




section \<open>Value and rate\<close>

lemma inf_of_sign_double: "js_mul (Fin 2) (inf_of_sign k) = inf_of_sign k"
  by (simp add: inf_of_sign_def)

lemma js_mul_double:
  assumes "normal_or_zero (the_fin h * r)"
  shows "js_mul h (Fin (2 * r)) = js_mul (Fin 2) (js_mul h (Fin r))"
proof (cases h)
  case NaN
  then show ?thesis by simp
next
  case PInf
  then show ?thesis by (simp add: inf_of_sign_def)
next
  case NInf
  then show ?thesis by (simp add: inf_of_sign_def)
next
  case (Fin a)
  show ?thesis
  proof (cases "a * r = 0")
    case True
    then show ?thesis unfolding Fin by auto
  next
    case False
    with assms Fin have "2 powi (- 1022) \<le> \<bar>a * r\<bar>" "\<bar>a * r\<bar> < 2 powi 1022"
      by (simp_all add: normal_or_zero_def the_fin_def)
    from round64_double[OF this] obtain y where
      y: "round64 (a * r) = Fin y" "round64 (2 * (a * r)) = Fin (2 * y)"
        "round64 (2 * y) = Fin (2 * y)"
      by blast
    have e: "a * (2 * r) = 2 * (a * r)" by simp
    have "js_mul (Fin a) (Fin (2 * r)) = Fin (2 * y)"
      by (simp only: js_mul.simps e y)
    moreover have "js_mul (Fin 2) (js_mul (Fin a) (Fin r)) = Fin (2 * y)"
      by (simp only: js_mul.simps y)
    ultimately show ?thesis unfolding Fin by simp
  qed
qed

lemma normal_or_zero_moderate:
  assumes "1 \<le> \<bar>x\<bar>" "\<bar>x\<bar> < 2 ^ 1022"
  shows "normal_or_zero x"
proof -
  have "(2::rat) powi (- 1022) \<le> 2 powi 0"
    by (rule power_int_increasing) simp_all
  then have "(2::rat) powi (- 1022) \<le> \<bar>x\<bar>" using assms(1) by simp
  moreover have "\<bar>x\<bar> < 2 powi 1022" using assms(2) by simp
  ultimately show ?thesis by (simp only: normal_or_zero_def) simp
qed

lemma round64_min_subnormal:
  "round64 (1 / (2 * 10 ^ 323)) = Fin (1 / 2 ^ 1074)"
  "round64 (1 / 10 ^ 323) = Fin (2 / 2 ^ 1074)"
  using round64_nearest[of "2 * 10 ^ 323" 1074 1 1] round64_nearest[of "10 ^ 323" 1074 1 2]
  by simp_all

lemma round64_underflow:
  "round64 (6004799503160661 / 2 ^ 1128) = Fin 0"
  "round64 (6004799503160661 / 2 ^ 1127) = Fin (1 / 2 ^ 1074)"
  using round64_nearest[of "2 ^ 1128" 1074 6004799503160661 0]
    round64_nearest[of "2 ^ 1127" 1074 6004799503160661 1]
  by simp_all

text \<open>
  Claim C7 says that the value is the hours times the rate and that doubling the rate
  doubles the value, for every non-negative rate. The product is a binary64 product, and
  below the normal range of binary64 a product is rounded on a grid that no longer halves.
  For an entry of twenty minutes (\<open>0.3333333333333333\<close> hours) and the rate
  \<open>5e-324\<close>, the smallest positive number, the value is 0; at twice the rate,
  \<open>1e-323\<close>, the value is \<open>5e-324\<close> and not twice 0.
\<close>

theorem rate_doubled_value_not_doubled:
  "parseFloat ''5e-324'' = Fin (1 / 2 ^ 1074)
   \<and> parseFloat ''1e-323'' = Fin (2 * (1 / 2 ^ 1074))
   \<and> calculateHoursAndValue ''08:00'' ''08:20'' ''5e-324'' None None
       = (Fin (6004799503160661 / 18014398509481984), Fin 0)
   \<and> calculateHoursAndValue ''08:00'' ''08:20'' ''1e-323'' None None
       = (Fin (6004799503160661 / 18014398509481984), Fin (1 / 2 ^ 1074))
   \<and> js_mul (Fin 2) (Fin 0) = Fin 0"
proof -
  have r: "parseFloat ''5e-324'' = Fin (1 / 2 ^ 1074)"
    "parseFloat ''1e-323'' = Fin (2 * (1 / 2 ^ 1074))"
    using round64_min_subnormal by (simp_all add: parse_defs)
  have h: "fst (calculateHoursAndValue ''08:00'' ''08:20'' rate None None)
      = Fin (6004799503160661 / 18014398509481984)" for rate
    by (simp add: calculateHoursAndValue_def Let_def parse_defs js_sub_def str_truthy_def
        round64_third)
  have v: "snd (calculateHoursAndValue ''08:00'' ''08:20'' rate None None)
      = js_mul (Fin (6004799503160661 / 18014398509481984)) (parseFloat rate)" for rate
    using h[of rate] by (simp add: calculateHoursAndValue_def Let_def)
  have p: "js_mul (Fin (6004799503160661 / 18014398509481984)) (Fin (1 / 2 ^ 1074)) = Fin 0"
    "js_mul (Fin (6004799503160661 / 18014398509481984)) (Fin (2 * (1 / 2 ^ 1074)))
       = Fin (1 / 2 ^ 1074)"
    using round64_underflow by simp_all
  have "calculateHoursAndValue ''08:00'' ''08:20'' ''5e-324'' None None
       = (Fin (6004799503160661 / 18014398509481984), Fin 0)"
    "calculateHoursAndValue ''08:00'' ''08:20'' ''1e-323'' None None
       = (Fin (6004799503160661 / 18014398509481984), Fin (1 / 2 ^ 1074))"
    by (simp_all only: prod_eq_iff fst_conv snd_conv h v r p)
  with r show ?thesis by simp
qed

text \<open>
  Claim C7, as amended. The total value is the hours times the hourly rate as JavaScript
  multiplies them, which is the binary64 number nearest to the product, in
  \<open>MemStorage.calculateHoursAndValue\<close> and in the object that
  \<open>DatabaseStorage.createTimeEntry\<close> hands to its insert statement. With the same times,
  a rate twice as large gives the same hours; it gives twice the value whenever the
  product of the hours and the rate is zero or in the normal range of binary64
  (from \<open>2\<^sup>-\<^sup>1\<^sup>0\<^sup>2\<^sup>2\<close> up to \<open>2\<^sup>1\<^sup>0\<^sup>2\<^sup>2\<close>), and also when the hours are not finite.
\<close>

theorem value_is_hours_times_rate:
  assumes "parseFloat rate = Fin r" "0 \<le> r" "parseFloat rate2 = Fin (2 * r)"
  shows "snd (calculateHoursAndValue s e rate bs be)
           = js_mul (fst (calculateHoursAndValue s e rate bs be)) (Fin r)
       \<and> fst (calculateHoursAndValue s e rate2 bs be) = fst (calculateHoursAndValue s e rate bs be)
       \<and> (normal_or_zero (the_fin (fst (calculateHoursAndValue s e rate bs be)) * r)
          \<longrightarrow> snd (calculateHoursAndValue s e rate2 bs be)
                = js_mul (Fin 2) (snd (calculateHoursAndValue s e rate bs be)))
       \<and> (hourlyRate service = rate \<and> hourlyRate service2 = rate2
          \<longrightarrow> snd (snd (timeEntryWithCalc service ins))
                = js_mul (fst (snd (timeEntryWithCalc service ins))) (Fin r)
              \<and> fst (snd (timeEntryWithCalc service2 ins)) = fst (snd (timeEntryWithCalc service ins))
              \<and> (normal_or_zero (the_fin (fst (snd (timeEntryWithCalc service ins))) * r)
                 \<longrightarrow> snd (snd (timeEntryWithCalc service2 ins))
                       = js_mul (Fin 2) (snd (snd (timeEntryWithCalc service ins)))))"
  using assms
  by (auto simp: calculateHoursAndValue_eq timeEntryWithCalc_def Let_def js_mul_double)

theorem value_is_hours_times_rate_witness:
  "parseFloat ''142'' = Fin 142 \<and> (0::rat) \<le> 142 \<and> parseFloat ''284'' = Fin (2 * 142)
   \<and> hourlyRate service1 = ''142'' \<and> hourlyRate (service1\<lparr> hourlyRate := ''284'' \<rparr>) = ''284''
   \<and> normal_or_zero (8 * 142) \<and> normal_or_zero (9 * 142)
   \<and> calculateHoursAndValue ''08:00'' ''17:00'' ''142'' (Some ''12:00'') (Some ''13:00'')
       = (Fin 8, Fin 1136)
   \<and> calculateHoursAndValue ''08:00'' ''17:00'' ''284'' (Some ''12:00'') (Some ''13:00'')
       = (Fin 8, Fin 2272)
   \<and> snd (calculateHoursAndValue ''08:00'' ''17:00'' ''284'' (Some ''12:00'') (Some ''13:00''))
       = js_mul (Fin 2)
           (snd (calculateHoursAndValue ''08:00'' ''17:00'' ''142'' (Some ''12:00'') (Some ''13:00'')))
   \<and> timeEntryWithCalc service1 insert1 = (insert1, Fin 9, Fin 1278)
   \<and> timeEntryWithCalc (service1\<lparr> hourlyRate := ''284'' \<rparr>) insert1 = (insert1, Fin 9, Fin 2556)
   \<and> snd (snd (timeEntryWithCalc (service1\<lparr> hourlyRate := ''284'' \<rparr>) insert1))
       = js_mul (Fin 2) (snd (snd (timeEntryWithCalc service1 insert1)))"
proof -
  let ?svc2 = "service1\<lparr> hourlyRate := ''284'' \<rparr>"
  have a: "parseFloat ''142'' = Fin 142" "parseFloat ''284'' = Fin (2 * 142)"
    by (simp_all add: parse_defs)
  have b: "hourlyRate service1 = ''142''" "hourlyRate ?svc2 = ''284''"
    by (simp_all add: service1_def)
  have n: "normal_or_zero (8 * 142)" "normal_or_zero (9 * 142)"
    by (rule normal_or_zero_moderate; simp)+
  have c: "calculateHoursAndValue ''08:00'' ''17:00'' ''142'' (Some ''12:00'') (Some ''13:00'')
       = (Fin 8, Fin 1136)"
    "calculateHoursAndValue ''08:00'' ''17:00'' ''284'' (Some ''12:00'') (Some ''13:00'')
       = (Fin 8, Fin 2272)"
    by (simp_all add: calculateHoursAndValue_def Let_def parse_defs js_sub_def str_truthy_def)
  have d: "timeEntryWithCalc service1 insert1 = (insert1, Fin 9, Fin 1278)"
    "timeEntryWithCalc ?svc2 insert1 = (insert1, Fin 9, Fin 2556)"
    by (simp_all add: timeEntryWithCalc_def calculateHours_def timeToMinutes_def Let_def
        parse_defs js_sub_def str_truthy_def insert1_def service1_def opt_of_def)
  from value_is_hours_times_rate [of "''142''" 142 "''284''" "''08:00''" "''17:00''"
      "Some ''12:00''" "Some ''13:00''" service1 ?svc2 insert1] a b c d n
  show ?thesis by (simp add: the_fin_def)
qed

section \<open>Sums on a grid\<close>

lemma scaled_less:
  fixes x y c :: rat
  assumes "x \<le> y" "y * 2 ^ k < c"
  shows "x * 2 ^ k < c"
proof -
  have "x * 2 ^ k \<le> y * 2 ^ k" using assms(1) by (intro mult_right_mono) simp_all
  from this assms(2) show ?thesis by (rule le_less_trans)
qed

lemma round64_grid:
  assumes "k \<le> 1074" "\<bar>n\<bar> < 2 ^ 53"
  shows "round64 (of_int n / 2 ^ k) = Fin (of_int n / 2 ^ k)"
proof -
  have e: "(of_int n :: rat) / 2 ^ k = of_int n * 2 powi (- int k)"
    by (simp add: power_int_minus divide_inverse)
  have "(2::rat) powi (- int k) \<le> 2 powi 0"
    by (rule power_int_increasing) simp_all
  then have "\<bar>of_int n :: rat\<bar> * 2 powi (- int k) \<le> \<bar>of_int n\<bar> * 1"
    by (intro mult_left_mono) simp_all
  moreover have "\<bar>of_int n :: rat\<bar> < 2 ^ 53"
    using assms(2) by (metis of_int_abs of_int_less_numeral_power_cancel_iff)
  moreover have "(2::rat) ^ 53 < 2 ^ 1024" by simp
  ultimately have "\<bar>of_int n :: rat\<bar> * 2 powi (- int k) < 2 ^ 1024" by simp
  moreover have "- 1074 \<le> - int k" using assms(1) by simp
  ultimately have "round64 (of_int n * 2 powi (- int k)) = Fin (of_int n * 2 powi (- int k))"
    using assms(2) by (intro round64_representable)
  then show ?thesis by (simp only: e)
qed

lemma on_grid_iff: "on_grid k (Fin a) \<longleftrightarrow> (\<exists>n::int. a = of_int n / 2 ^ k)"
proof
  assume "on_grid k (Fin a)"
  then have f: "of_int \<lfloor>a * 2 ^ k\<rfloor> = a * 2 ^ k" by (simp add: on_grid_def)
  have "a = a * 2 ^ k / 2 ^ k" by simp
  then have "a = of_int \<lfloor>a * 2 ^ k\<rfloor> / 2 ^ k" by (simp only: f)
  then show "\<exists>n::int. a = of_int n / 2 ^ k" ..
next
  assume "\<exists>n::int. a = of_int n / 2 ^ k"
  then obtain n :: int where "a = of_int n / 2 ^ k" ..
  then have "a * 2 ^ k = of_int n" by simp
  then show "on_grid k (Fin a)" by (simp add: on_grid_def)
qed

lemma on_grid_cases:
  assumes "on_grid k x"
  obtains a where "x = Fin a"
  using assms by (cases x) (simp_all add: on_grid_def)

lemma on_grid_zero [simp]: "on_grid k (Fin 0)"
  by (simp add: on_grid_def)

lemma on_grid_add:
  assumes "on_grid k (Fin a)" "on_grid k (Fin b)"
  shows "on_grid k (Fin (a + b))"
proof -
  from assms obtain n m :: int where "a = of_int n / 2 ^ k" "b = of_int m / 2 ^ k"
    unfolding on_grid_iff by blast
  then have "a + b = of_int (n + m) / 2 ^ k" by (simp add: add_divide_distrib)
  then show ?thesis unfolding on_grid_iff ..
qed

lemma js_add_exact:
  assumes k: "k \<le> 1074" and a: "on_grid k (Fin a)" and b: "on_grid k (Fin b)"
    and small: "(\<bar>a\<bar> + \<bar>b\<bar>) * 2 ^ k < 2 ^ 53"
  shows "js_add (Fin a) (Fin b) = Fin (a + b)"
proof -
  from on_grid_add[OF a b] obtain n :: int where n: "a + b = of_int n / 2 ^ k"
    unfolding on_grid_iff ..
  then have "(of_int \<bar>n\<bar> :: rat) = \<bar>a + b\<bar> * 2 ^ k" by (simp add: abs_mult)
  also have "\<dots> \<le> (\<bar>a\<bar> + \<bar>b\<bar>) * 2 ^ k" by (intro mult_right_mono) simp_all
  also have "\<dots> < 2 ^ 53" by (rule small)
  finally have "(of_int \<bar>n\<bar> :: rat) < of_int (2 ^ 53)" by simp
  then have "\<bar>n\<bar> < 2 ^ 53" by (simp only: of_int_less_iff)
  from round64_grid[OF k this] show ?thesis by (simp add: n)
qed

lemma foldl_exact:
  assumes "k \<le> 1074" "on_grid k (Fin a)" "list_all (on_grid k) (map g xs)"
    "(\<bar>a\<bar> + sum_list (map (\<lambda>x. \<bar>the_fin (g x)\<bar>) xs)) * 2 ^ k < 2 ^ 53"
  shows "foldl (\<lambda>sum x. js_add sum (g x)) (Fin a) xs
         = Fin (a + sum_list (map (\<lambda>x. the_fin (g x)) xs))"
  using assms
proof (induction xs arbitrary: a)
  case Nil
  then show ?case by simp
next
  case (Cons x xs)
  from Cons.prems(3) have gx: "on_grid k (g x)" and rest: "list_all (on_grid k) (map g xs)"
    by simp_all
  from gx obtain b where b: "g x = Fin b" by (rule on_grid_cases)
  have nonneg: "0 \<le> sum_list (map (\<lambda>x. \<bar>the_fin (g x)\<bar>) xs)"
    by (rule sum_list_nonneg) auto
  have bound: "(\<bar>a\<bar> + \<bar>b\<bar> + sum_list (map (\<lambda>x. \<bar>the_fin (g x)\<bar>) xs)) * 2 ^ k < 2 ^ 53"
    using Cons.prems(4) by (simp add: b the_fin_def add.assoc)
  have "\<bar>a\<bar> + \<bar>b\<bar> \<le> \<bar>a\<bar> + \<bar>b\<bar> + sum_list (map (\<lambda>x. \<bar>the_fin (g x)\<bar>) xs)"
    using nonneg by simp
  then have small: "(\<bar>a\<bar> + \<bar>b\<bar>) * 2 ^ k < 2 ^ 53" using bound by (rule scaled_less)
  have step: "js_add (Fin a) (g x) = Fin (a + b)"
    unfolding b using Cons.prems(1,2) gx[unfolded b] small by (rule js_add_exact)
  have grid: "on_grid k (Fin (a + b))"
    using Cons.prems(2) gx[unfolded b] by (rule on_grid_add)
  have "\<bar>a + b\<bar> + sum_list (map (\<lambda>x. \<bar>the_fin (g x)\<bar>) xs)
        \<le> \<bar>a\<bar> + \<bar>b\<bar> + sum_list (map (\<lambda>x. \<bar>the_fin (g x)\<bar>) xs)"
    by simp
  then have
    "(\<bar>a + b\<bar> + sum_list (map (\<lambda>x. \<bar>the_fin (g x)\<bar>) xs)) * 2 ^ k < 2 ^ 53"
    using bound by (rule scaled_less)
  moreover have r: "round64 (a + b) = Fin (a + b)" using step by (simp add: b)
  ultimately show ?case
    using Cons.IH[OF Cons.prems(1) grid rest] by (simp add: b r the_fin_def add.assoc)
qed

lemma reduce_sum_exact:
  assumes "sums_exactly k (map g xs)"
  shows "reduce_sum g xs = Fin (sum_list (map (\<lambda>x. the_fin (g x)) xs))"
proof -
  from assms have "k \<le> 1074" "list_all (on_grid k) (map g xs)"
    "(\<bar>0\<bar> + sum_list (map (\<lambda>x. \<bar>the_fin (g x)\<bar>) xs)) * 2 ^ k < 2 ^ 53"
    by (simp_all add: sums_exactly_def comp_def)
  from foldl_exact[OF this(1) on_grid_zero this(2,3)] show ?thesis
    by (simp add: reduce_sum_def)
qed

lemma reduce_sum_map: "reduce_sum g xs = reduce_sum (\<lambda>h. h) (map g xs)"
  by (simp add: reduce_sum_def foldl_map)

lemma sum_list_abs_filter_le:
  fixes f :: "'a \<Rightarrow> rat"
  shows "sum_list (map (\<lambda>x. \<bar>f x\<bar>) (filter P xs)) \<le> sum_list (map (\<lambda>x. \<bar>f x\<bar>) xs)"
  by (induction xs) (auto intro: add_mono order_trans)

lemma sums_exactly_filter:
  assumes "sums_exactly k (map g xs)"
  shows "sums_exactly k (map g (filter P xs))"
proof -
  from assms have small: "sum_list (map (\<lambda>x. \<bar>the_fin (g x)\<bar>) xs) * 2 ^ k < 2 ^ 53"
    by (simp add: sums_exactly_def comp_def)
  have "sum_list (map (\<lambda>x. \<bar>the_fin (g x)\<bar>) (filter P xs)) * 2 ^ k < 2 ^ 53"
    using sum_list_abs_filter_le small by (rule scaled_less)
  then show ?thesis
    using assms by (auto simp: sums_exactly_def comp_def list_all_iff)
qed

lemma sum_list_perm:
  fixes f :: "'a \<Rightarrow> rat"
  assumes "mset xs = mset ys"
  shows "sum_list (map f xs) = sum_list (map f ys)"
proof -
  have "sum_mset (image_mset f (mset xs)) = sum_mset (image_mset f (mset ys))"
    by (simp add: assms)
  then show ?thesis by (simp add: sum_mset_sum_list[symmetric])
qed

lemma sums_exactly_perm:
  assumes "mset xs = mset ys" "sums_exactly k (map g xs)"
  shows "sums_exactly k (map g ys)"
proof -
  have "set xs = set ys" using assms(1) by (rule mset_eq_setD)
  moreover have "sum_list (map (\<lambda>x. \<bar>the_fin (g x)\<bar>) xs) = sum_list (map (\<lambda>x. \<bar>the_fin (g x)\<bar>) ys)"
    using assms(1) by (rule sum_list_perm)
  ultimately show ?thesis
    using assms(2) by (simp add: sums_exactly_def comp_def list_all_iff)
qed

lemma reduce_sum_perm:
  assumes "mset xs = mset ys" "sums_exactly k (map g xs)"
  shows "reduce_sum g ys = reduce_sum g xs"
  by (simp add: reduce_sum_exact[OF assms(2)] reduce_sum_exact[OF sums_exactly_perm[OF assms]]
      sum_list_perm[OF assms(1)])

lemma on_grid_sum:
  assumes "list_all (on_grid k) (map g xs)"
  shows "on_grid k (Fin (sum_list (map (\<lambda>x. the_fin (g x)) xs)))"
  using assms
proof (induction xs)
  case Nil
  then show ?case by simp
next
  case (Cons x xs)
  then have gx: "on_grid k (g x)" and rest: "list_all (on_grid k) (map g xs)" by simp_all
  from gx obtain b where b: "g x = Fin b" by (rule on_grid_cases)
  from on_grid_add[OF gx[unfolded b] Cons.IH[OF rest]] show ?case
    by (simp add: b the_fin_def)
qed

section \<open>Sets and sorting\<close>

lemma js_Set_step:
  "set (foldl (\<lambda>s x. if x \<in> set s then s else s @ [x]) acc xs) = set acc \<union> set xs
   \<and> (distinct acc \<longrightarrow> distinct (foldl (\<lambda>s x. if x \<in> set s then s else s @ [x]) acc xs))"
  by (induction xs arbitrary: acc) auto

lemma set_js_Set [simp]: "set (js_Set xs) = set xs"
  using js_Set_step[of "[]" xs] by (simp add: js_Set_def)

lemma distinct_js_Set [simp]: "distinct (js_Set xs)"
  using js_Set_step[of "[]" xs] by (simp add: js_Set_def)

lemma mset_insert_sorted: "mset (insert_sorted cmp x ys) = add_mset x (mset ys)"
  by (induction ys) simp_all

lemma mset_js_sort [simp]: "mset (js_sort cmp xs) = mset xs"
  by (induction xs) (simp_all add: js_sort_def mset_insert_sorted)

lemma sum_list_filter_split:
  fixes g :: "'a \<Rightarrow> 'b::comm_monoid_add"
  assumes "\<And>x. \<not> (P x \<and> Q x)"
  shows "sum_list (map g (filter (\<lambda>x. P x \<or> Q x) xs))
         = sum_list (map g (filter P xs)) + sum_list (map g (filter Q xs))"
  using assms by (induction xs) (auto simp: ac_simps)

lemma sum_list_groups:
  fixes g :: "'a \<Rightarrow> 'b::comm_monoid_add"
  assumes "distinct ids"
  shows "sum_list (map (\<lambda>c. sum_list (map g (filter (\<lambda>x. key x = c) xs))) ids)
         = sum_list (map g (filter (\<lambda>x. key x \<in> set ids) xs))"
  using assms
proof (induction ids)
  case Nil
  then show ?case by simp
next
  case (Cons c ids)
  have "sum_list (map g (filter (\<lambda>x. key x = c \<or> key x \<in> set ids) xs))
      = sum_list (map g (filter (\<lambda>x. key x = c) xs))
        + sum_list (map g (filter (\<lambda>x. key x \<in> set ids) xs))"
    using Cons.prems by (intro sum_list_filter_split) auto
  with Cons show ?case by simp
qed

lemma sum_list_ones: "sum_list (map (\<lambda>x. Suc 0) xs) = length xs"
  by (induction xs) simp_all

lemma length_groups:
  assumes "distinct ids"
  shows "sum_list (map (\<lambda>c. length (filter (\<lambda>x. key x = c) xs)) ids)
         = length (filter (\<lambda>x. key x \<in> set ids) xs)"
  using sum_list_groups[OF assms, of "\<lambda>x. Suc 0" key xs]
  by (simp add: sum_list_ones)

lemma sum_list_sorted:
  fixes g :: "'a \<Rightarrow> 'b::comm_monoid_add"
  shows "sum_list (map g (js_sort cmp xs)) = sum_list (map g xs)"
proof -
  have "sum_mset (image_mset g (mset (js_sort cmp xs))) = sum_mset (image_mset g (mset xs))"
    by simp
  then show ?thesis
    by (simp add: sum_mset_sum_list[symmetric] del: mset_js_sort)
qed

text \<open>
  The sums of the groups of a list that sums exactly add up, in any order, to the sum
  over the elements whose key has a group.
\<close>

lemma groups_total_exact:
  fixes key :: "'a \<Rightarrow> 'k" and g :: "'a \<Rightarrow> jsnum"
  assumes ex: "sums_exactly k (map g xs)" and d: "distinct ids"
    and hs: "mset hs = mset (map (\<lambda>c. reduce_sum g (filter (\<lambda>x. key x = c) xs)) ids)"
  shows "reduce_sum (\<lambda>h. h) hs = reduce_sum g (filter (\<lambda>x. key x \<in> set ids) xs)"
proof -
  define v where "v = (\<lambda>x. the_fin (g x))"
  define S where "S = (\<lambda>c. sum_list (map v (filter (\<lambda>x. key x = c) xs)))"
  define gs where "gs = map (\<lambda>c. Fin (S c)) ids"
  have grp: "reduce_sum g (filter (\<lambda>x. key x = c) xs) = Fin (S c)" for c
    unfolding S_def v_def by (rule reduce_sum_exact[OF sums_exactly_filter[OF ex]])
  have hs': "mset gs = mset hs" using hs by (simp add: gs_def grp)
  have k: "k \<le> 1074" and grid: "list_all (on_grid k) (map g xs)"
    and small: "sum_list (map (\<lambda>x. \<bar>v x\<bar>) xs) * 2 ^ k < 2 ^ 53"
    using ex by (simp_all add: sums_exactly_def comp_def v_def)
  have grid_gs: "list_all (on_grid k) gs"
  proof -
    have "on_grid k (Fin (S c))" for c
    proof -
      have "list_all (on_grid k) (map g (filter (\<lambda>x. key x = c) xs))"
        using grid by (auto simp: list_all_iff)
      then show ?thesis unfolding S_def v_def by (rule on_grid_sum)
    qed
    then show ?thesis by (simp add: gs_def list_all_iff)
  qed
  have "sum_list (map (\<lambda>h. \<bar>the_fin h\<bar>) gs) = sum_list (map (\<lambda>c. \<bar>S c\<bar>) ids)"
    by (simp add: gs_def comp_def the_fin_def)
  also have "\<dots> \<le> sum_list (map (\<lambda>c. sum_list (map (\<lambda>x. \<bar>v x\<bar>) (filter (\<lambda>x. key x = c) xs))) ids)"
  proof (rule sum_list_mono)
    fix c
    show "\<bar>S c\<bar> \<le> sum_list (map (\<lambda>x. \<bar>v x\<bar>) (filter (\<lambda>x. key x = c) xs))"
      unfolding S_def using sum_list_abs[of "map v (filter (\<lambda>x. key x = c) xs)"]
      by (simp add: comp_def)
  qed
  also have "\<dots> = sum_list (map (\<lambda>x. \<bar>v x\<bar>) (filter (\<lambda>x. key x \<in> set ids) xs))"
    by (rule sum_list_groups[OF d])
  also have "\<dots> \<le> sum_list (map (\<lambda>x. \<bar>v x\<bar>) xs)"
    by (rule sum_list_abs_filter_le)
  finally have "sum_list (map (\<lambda>h. \<bar>the_fin h\<bar>) gs) \<le> sum_list (map (\<lambda>x. \<bar>v x\<bar>) xs)" .
  then have "sum_list (map (\<lambda>h. \<bar>the_fin h\<bar>) gs) * 2 ^ k < 2 ^ 53"
    using small by (rule scaled_less)
  with k grid_gs have ex_gs: "sums_exactly k (map (\<lambda>h. h) gs)"
    by (simp add: sums_exactly_def)
  have "reduce_sum (\<lambda>h. h) hs = reduce_sum (\<lambda>h. h) gs"
    by (rule reduce_sum_perm[OF hs' ex_gs])
  also have "\<dots> = Fin (sum_list (map the_fin gs))"
    using reduce_sum_exact[OF ex_gs] by simp
  also have "sum_list (map the_fin gs) = sum_list (map S ids)"
    by (simp add: gs_def comp_def the_fin_def)
  also have "\<dots> = sum_list (map v (filter (\<lambda>x. key x \<in> set ids) xs))"
    unfolding S_def by (rule sum_list_groups[OF d])
  also have "Fin \<dots> = reduce_sum g (filter (\<lambda>x. key x \<in> set ids) xs)"
    unfolding v_def by (rule reduce_sum_exact[OF sums_exactly_filter[OF ex], symmetric])
  finally show ?thesis .
qed

section \<open>The fields of a report\<close>

lemma db_clientGroup_fields [simp]:
  "cb_clientId (db_clientGroup entries c) = c"
  "cb_hours (db_clientGroup entries c)
     = reduce_sum (\<lambda>entry. totalHours (fst entry)) (filter (\<lambda>x. clientId (fst x) = c) entries)"
  "cb_value (db_clientGroup entries c)
     = reduce_sum (\<lambda>entry. totalValue (fst entry)) (filter (\<lambda>x. clientId (fst x) = c) entries)"
  "cb_entries (db_clientGroup entries c) = length (filter (\<lambda>x. clientId (fst x) = c) entries)"
  by (simp_all add: db_clientGroup_def Let_def)

lemma db_report_fields:
  "r_totalHours (db_getReportData db f)
     = reduce_sum (\<lambda>entry. totalHours (fst entry)) (db_reportQuery db f)"
  "r_totalValue (db_getReportData db f)
     = reduce_sum (\<lambda>entry. totalValue (fst entry)) (db_reportQuery db f)"
  "r_totalEntries (db_getReportData db f) = length (db_reportQuery db f)"
  "r_totalClients (db_getReportData db f)
     = length (js_Set (map (\<lambda>entry. clientId (fst entry)) (db_reportQuery db f)))"
  "clientBreakdown (db_getReportData db f)
     = js_sort by_value_desc (map (db_clientGroup (db_reportQuery db f))
         (js_Set (map (\<lambda>entry. clientId (fst entry)) (db_reportQuery db f))))"
  by (simp_all add: db_getReportData_def Let_def)

lemma mem_report_fields:
  "r_totalHours (mem_getReportData st f) = reduce_sum totalHours (mem_reportEntries st f)"
  "r_totalValue (mem_getReportData st f) = reduce_sum totalValue (mem_reportEntries st f)"
  "r_totalEntries (mem_getReportData st f) = length (mem_reportEntries st f)"
  "r_totalClients (mem_getReportData st f) = length (js_Set (map clientId (mem_reportEntries st f)))"
  "clientBreakdown (mem_getReportData st f)
     = js_sort by_value_desc (concat (map (mem_clientGroup st (mem_reportEntries st f))
         (js_Set (map clientId (mem_reportEntries st f)))))"
  by (simp_all add: mem_getReportData_def mem_reportEntries_def Let_def)

text \<open>The group that the in-memory store builds for a client id that has a client.\<close>

lemma mem_groups_present:
  "concat (map (mem_clientGroup st es) ids)
   = map (\<lambda>c. \<lparr> cb_clientId = c, cb_clientName = client_name (the (clients st c)),
               cb_hours = reduce_sum totalHours (filter (\<lambda>entry. clientId entry = c) es),
               cb_value = reduce_sum totalValue (filter (\<lambda>entry. clientId entry = c) es),
               cb_entries = length (filter (\<lambda>entry. clientId entry = c) es) \<rparr>)
       (filter (\<lambda>c. clients st c \<noteq> None) ids)"
  by (induction ids) (auto simp: mem_clientGroup_def Let_def)

lemma filter_known_keys:
  "filter (\<lambda>x. key x \<in> set (filter P (js_Set (map key xs)))) xs = filter (\<lambda>x. P (key x)) xs"
  by (rule filter_cong) auto

section \<open>Groups and grand totals\<close>

lemma report_sum_exact:
  assumes ex: "sums_exactly k (map g xs)" and d: "distinct ids"
    and groups: "mset (map p groups) = mset (map (\<lambda>c. reduce_sum g (filter (\<lambda>x. key x = c) xs)) ids)"
    and all: "\<forall>x \<in> set xs. key x \<in> set ids"
  shows "reduce_sum p groups = reduce_sum g xs"
proof -
  have "reduce_sum p groups = reduce_sum (\<lambda>h. h) (map p groups)"
    by (rule reduce_sum_map)
  also have "\<dots> = reduce_sum g (filter (\<lambda>x. key x \<in> set ids) xs)"
    using ex d groups by (rule groups_total_exact)
  also have "filter (\<lambda>x. key x \<in> set ids) xs = xs"
    using all by (simp add: filter_id_conv)
  finally show ?thesis .
qed

lemma db_report_counts:
  "sum_list (map cb_entries (clientBreakdown (db_getReportData db f)))
     = r_totalEntries (db_getReportData db f)"
  unfolding db_report_fields
  by (simp add: sum_list_sorted comp_def length_groups)

lemma db_report_hours:
  assumes "sums_exactly k (map totalHours (db_reportEntries db f))"
  shows "reduce_sum cb_hours (clientBreakdown (db_getReportData db f))
         = r_totalHours (db_getReportData db f)"
  unfolding db_report_fields
proof (rule report_sum_exact[where k = k and key = "\<lambda>entry. clientId (fst entry)"
      and ids = "js_Set (map (\<lambda>entry. clientId (fst entry)) (db_reportQuery db f))"])
  show "sums_exactly k (map (\<lambda>entry. totalHours (fst entry)) (db_reportQuery db f))"
    using assms by (simp add: db_reportEntries_def comp_def)
qed (simp_all add: multiset.map_comp comp_def)

lemma db_report_value:
  assumes "sums_exactly k (map totalValue (db_reportEntries db f))"
  shows "reduce_sum cb_value (clientBreakdown (db_getReportData db f))
         = r_totalValue (db_getReportData db f)"
  unfolding db_report_fields
proof (rule report_sum_exact[where k = k and key = "\<lambda>entry. clientId (fst entry)"
      and ids = "js_Set (map (\<lambda>entry. clientId (fst entry)) (db_reportQuery db f))"])
  show "sums_exactly k (map (\<lambda>entry. totalValue (fst entry)) (db_reportQuery db f))"
    using assms by (simp add: db_reportEntries_def comp_def)
qed (simp_all add: multiset.map_comp comp_def)

lemma mem_report_counts:
  "sum_list (map cb_entries (clientBreakdown (mem_getReportData st f)))
     = length (filter (\<lambda>e. clients st (clientId e) \<noteq> None) (mem_reportEntries st f))"
proof -
  define es where "es = mem_reportEntries st f"
  define ids where "ids = filter (\<lambda>c. clients st c \<noteq> None) (js_Set (map clientId es))"
  have d: "distinct ids"
    by (simp add: ids_def)
  have known: "filter (\<lambda>x. clientId x \<in> set ids) es = filter (\<lambda>e. clients st (clientId e) \<noteq> None) es"
    unfolding ids_def by (rule filter_known_keys)
  have "sum_list (map cb_entries (clientBreakdown (mem_getReportData st f)))
      = sum_list (map (\<lambda>c. length (filter (\<lambda>x. clientId x = c) es)) ids)"
    by (simp add: mem_report_fields mem_groups_present sum_list_sorted comp_def es_def ids_def)
  also have "\<dots> = length (filter (\<lambda>x. clientId x \<in> set ids) es)"
    by (rule length_groups[OF d])
  also have "\<dots> = length (filter (\<lambda>e. clients st (clientId e) \<noteq> None) es)"
    by (simp only: known)
  finally show ?thesis
    unfolding es_def .
qed

lemma mem_report_hours:
  assumes "\<forall>e \<in> set (mem_reportEntries st f). clients st (clientId e) \<noteq> None"
    and "sums_exactly k (map totalHours (mem_reportEntries st f))"
  shows "reduce_sum cb_hours (clientBreakdown (mem_getReportData st f))
         = r_totalHours (mem_getReportData st f)"
  unfolding mem_report_fields
proof (rule report_sum_exact[where k = k and key = clientId
      and ids = "filter (\<lambda>c. clients st c \<noteq> None) (js_Set (map clientId (mem_reportEntries st f)))"])
  show "sums_exactly k (map totalHours (mem_reportEntries st f))" by (rule assms(2))
  show "\<forall>x \<in> set (mem_reportEntries st f). clientId x
          \<in> set (filter (\<lambda>c. clients st c \<noteq> None) (js_Set (map clientId (mem_reportEntries st f))))"
    using assms(1) by simp
qed (simp_all add: mem_groups_present multiset.map_comp comp_def)

lemma mem_report_value:
  assumes "\<forall>e \<in> set (mem_reportEntries st f). clients st (clientId e) \<noteq> None"
    and "sums_exactly k (map totalValue (mem_reportEntries st f))"
  shows "reduce_sum cb_value (clientBreakdown (mem_getReportData st f))
         = r_totalValue (mem_getReportData st f)"
  unfolding mem_report_fields
proof (rule report_sum_exact[where k = k and key = clientId
      and ids = "filter (\<lambda>c. clients st c \<noteq> None) (js_Set (map clientId (mem_reportEntries st f)))"])
  show "sums_exactly k (map totalValue (mem_reportEntries st f))" by (rule assms(2))
  show "\<forall>x \<in> set (mem_reportEntries st f). clientId x
          \<in> set (filter (\<lambda>c. clients st c \<noteq> None) (js_Set (map clientId (mem_reportEntries st f))))"
    using assms(1) by simp
qed (simp_all add: mem_groups_present multiset.map_comp comp_def)

text \<open>
  The binary64 numbers that the texts \<open>0.1\<close>, \<open>0.2\<close> and \<open>0.3\<close> denote, and their sums
  in the orders in which the reports below add them: \<open>0.1 + 0.2\<close> is
  \<open>0.30000000000000004\<close> and \<open>0.30000000000000004 + 0.3\<close> is \<open>0.6000000000000001\<close>,
  while \<open>0.3 + 0.2\<close> is \<open>0.5\<close> and \<open>0.5 + 0.1\<close> is \<open>0.6\<close>.
\<close>

lemma round64_tenths:
  "round64 (1 / 10) = Fin (3602879701896397 / 36028797018963968)"
  "round64 (1 / 5) = Fin (3602879701896397 / 18014398509481984)"
  "round64 (3 / 10) = Fin (5404319552844595 / 18014398509481984)"
  "round64 (3602879701896397 / 36028797018963968) = Fin (3602879701896397 / 36028797018963968)"
  "round64 (3602879701896397 / 18014398509481984) = Fin (3602879701896397 / 18014398509481984)"
  "round64 (5404319552844595 / 18014398509481984) = Fin (5404319552844595 / 18014398509481984)"
  "round64 (10808639105689191 / 36028797018963968) = Fin (1351079888211149 / 4503599627370496)"
  "round64 (10808639105689191 / 18014398509481984) = Fin (1351079888211149 / 2251799813685248)"
  "round64 (1 / 2) = Fin (1 / 2)"
  "round64 (21617278211378381 / 36028797018963968) = Fin (5404319552844595 / 9007199254740992)"
  using round64_nearest[of 10 56 1 7205759403792794]
    round64_nearest[of 5 55 1 7205759403792794]
    round64_nearest[of 10 54 3 5404319552844595]
    round64_nearest[of 36028797018963968 56 3602879701896397 7205759403792794]
    round64_nearest[of 18014398509481984 55 3602879701896397 7205759403792794]
    round64_nearest[of 18014398509481984 54 5404319552844595 5404319552844595]
    round64_nearest[of 36028797018963968 54 10808639105689191 5404319552844596]
    round64_nearest[of 18014398509481984 53 10808639105689191 5404319552844596]
    round64_nearest[of 2 53 1 4503599627370496]
    round64_nearest[of 36028797018963968 53 21617278211378381 5404319552844595]
  by simp_all

lemma short_entry_totals:
  "totalHours (entry4 c) = Fin (3602879701896397 / 36028797018963968)"
  "totalHours (entry5 c) = Fin (3602879701896397 / 18014398509481984)"
  "totalHours (entry6 c) = Fin (5404319552844595 / 18014398509481984)"
  "totalValue (entry4 c) = Fin 10" "totalValue (entry5 c) = Fin 20" "totalValue (entry6 c) = Fin 30"
  "clientId (entry4 c) = c" "clientId (entry5 c) = c" "clientId (entry6 c) = c"
  by (simp_all add: entry4_def entry5_def entry6_def short_entry_def parse_defs round64_tenths)

text \<open>
  Claim C5 says that the hours, the value and the entry counts of the groups of
  \<open>clientBreakdown\<close> add up to the grand totals, also when an entry names a client that
  is no longer in the client store. \<open>MemStorage.getReportData\<close> skips such a client id:
  in the small store without its client, the one entry counts in the grand totals
  (eight hours, 1136, one entry) and the breakdown is empty. And the sums are binary64
  sums, which depend on the grouping: for the three short entries, the first of one
  client and the other two of another, \<open>DatabaseStorage.getReportData\<close> reports the total
  hours \<open>0.6000000000000001\<close> and the groups \<open>0.5\<close> and \<open>0.1\<close>, which add up to \<open>0.6\<close>.
\<close>

theorem groups_and_totals_counterexample:
  "mem_reportEntries (store1\<lparr> clients := Map.empty \<rparr>) no_filters = [entry1]
   \<and> r_totalHours (mem_getReportData (store1\<lparr> clients := Map.empty \<rparr>) no_filters) = Fin 8
   \<and> r_totalValue (mem_getReportData (store1\<lparr> clients := Map.empty \<rparr>) no_filters) = Fin 1136
   \<and> r_totalEntries (mem_getReportData (store1\<lparr> clients := Map.empty \<rparr>) no_filters) = 1
   \<and> clientBreakdown (mem_getReportData (store1\<lparr> clients := Map.empty \<rparr>) no_filters) = []
   \<and> reduce_sum cb_hours
        (clientBreakdown (mem_getReportData (store1\<lparr> clients := Map.empty \<rparr>) no_filters)) = Fin 0
   \<and> r_totalHours (db_getReportData database_split no_filters)
       = Fin (1351079888211149 / 2251799813685248)
   \<and> map cb_hours (clientBreakdown (db_getReportData database_split no_filters))
       = [Fin (1 / 2), Fin (3602879701896397 / 36028797018963968)]
   \<and> reduce_sum cb_hours (clientBreakdown (db_getReportData database_split no_filters))
       = Fin (5404319552844595 / 9007199254740992)"
proof -
  have mem: "mem_reportEntries (store1\<lparr> clients := Map.empty \<rparr>) no_filters = [entry1]
   \<and> r_totalHours (mem_getReportData (store1\<lparr> clients := Map.empty \<rparr>) no_filters) = Fin 8
   \<and> r_totalValue (mem_getReportData (store1\<lparr> clients := Map.empty \<rparr>) no_filters) = Fin 1136
   \<and> r_totalEntries (mem_getReportData (store1\<lparr> clients := Map.empty \<rparr>) no_filters) = 1
   \<and> clientBreakdown (mem_getReportData (store1\<lparr> clients := Map.empty \<rparr>) no_filters) = []
   \<and> reduce_sum cb_hours
        (clientBreakdown (mem_getReportData (store1\<lparr> clients := Map.empty \<rparr>) no_filters)) = Fin 0"
    by (simp add: mem_getReportData_def mem_reportEntries_def mem_clientGroup_def store1_def
        no_filters_def matches_def str_truthy_def int_truthy_def entry1_def reduce_sum_def
        js_Set_def js_sort_def Let_def)
  have q: "db_reportQuery database_split no_filters
      = [(entry4 1, Some client1), (entry5 2, Some client2), (entry6 2, Some client2)]"
    by (simp add: db_reportQuery_def database_split_def database1_def no_filters_def matches_def
        str_truthy_def int_truthy_def short_entry_totals)
  have t: "r_totalHours (db_getReportData database_split no_filters)
       = Fin (1351079888211149 / 2251799813685248)"
    by (simp add: db_report_fields q reduce_sum_def short_entry_totals round64_tenths)
  have g: "clientBreakdown (db_getReportData database_split no_filters)
       = [\<lparr> cb_clientId = 2, cb_clientName = ''TechCorp'', cb_hours = Fin (1 / 2),
             cb_value = Fin 50, cb_entries = 2 \<rparr>,
          \<lparr> cb_clientId = 1, cb_clientName = ''SkyStoneBrasil'',
             cb_hours = Fin (3602879701896397 / 36028797018963968),
             cb_value = Fin 10, cb_entries = 1 \<rparr>]"
    by (simp add: db_report_fields q db_clientGroup_def Let_def js_Set_def js_sort_def
        by_value_desc_def js_sub_def reduce_sum_def short_entry_totals round64_tenths
        str_truthy_def client1_def client2_def)
  have h: "map cb_hours (clientBreakdown (db_getReportData database_split no_filters))
       = [Fin (1 / 2), Fin (3602879701896397 / 36028797018963968)]"
    by (simp add: g)
  have s: "reduce_sum cb_hours (clientBreakdown (db_getReportData database_split no_filters))
       = Fin (5404319552844595 / 9007199254740992)"
    by (simp add: g reduce_sum_def round64_tenths)
  from mem t h s show ?thesis by blast
qed

text \<open>
  Claim C5, as amended. The entry counts of the groups add up to \<open>totalEntries\<close> in
  \<open>DatabaseStorage.getReportData\<close>, for every table and every filter; in
  \<open>MemStorage.getReportData\<close> they add up to the number of filtered entries whose client
  is in the client store, and so to \<open>totalEntries\<close> when every filtered entry has its
  client. The hours of the groups add up to \<open>totalHours\<close>, and the values to
  \<open>totalValue\<close>, when the stored numbers sum exactly on a grid (in the in-memory store,
  when in addition every filtered entry has its client).
\<close>

theorem group_sums_and_totals:
  "sum_list (map cb_entries (clientBreakdown (db_getReportData db f)))
       = r_totalEntries (db_getReportData db f)
   \<and> (sums_exactly k (map totalHours (db_reportEntries db f))
       \<longrightarrow> reduce_sum cb_hours (clientBreakdown (db_getReportData db f))
           = r_totalHours (db_getReportData db f))
   \<and> (sums_exactly j (map totalValue (db_reportEntries db f))
       \<longrightarrow> reduce_sum cb_value (clientBreakdown (db_getReportData db f))
           = r_totalValue (db_getReportData db f))
   \<and> sum_list (map cb_entries (clientBreakdown (mem_getReportData st f)))
       = length (filter (\<lambda>e. clients st (clientId e) \<noteq> None) (mem_reportEntries st f))
   \<and> ((\<forall>e \<in> set (mem_reportEntries st f). clients st (clientId e) \<noteq> None)
        \<longrightarrow> sum_list (map cb_entries (clientBreakdown (mem_getReportData st f)))
              = r_totalEntries (mem_getReportData st f)
            \<and> (sums_exactly k (map totalHours (mem_reportEntries st f))
                \<longrightarrow> reduce_sum cb_hours (clientBreakdown (mem_getReportData st f))
                    = r_totalHours (mem_getReportData st f))
            \<and> (sums_exactly j (map totalValue (mem_reportEntries st f))
                \<longrightarrow> reduce_sum cb_value (clientBreakdown (mem_getReportData st f))
                    = r_totalValue (mem_getReportData st f)))"
proof -
  have all: "filter (\<lambda>e. clients st (clientId e) \<noteq> None) (mem_reportEntries st f) = mem_reportEntries st f"
    if "\<forall>e \<in> set (mem_reportEntries st f). clients st (clientId e) \<noteq> None"
    using that by (simp add: filter_id_conv)
  have n: "sum_list (map cb_entries (clientBreakdown (mem_getReportData st f)))
        = r_totalEntries (mem_getReportData st f)"
    if "\<forall>e \<in> set (mem_reportEntries st f). clients st (clientId e) \<noteq> None"
    using mem_report_counts[of st f] all[OF that] by (simp only: mem_report_fields)
  show ?thesis
    using db_report_counts[of db f] db_report_hours[of k db f] db_report_value[of j db f]
      mem_report_counts[of st f] n mem_report_hours[of st f k] mem_report_value[of st f j]
    by blast
qed

theorem group_sums_and_totals_witness:
  "sums_exactly 0 (map totalHours (db_reportEntries database123 no_filters))
   \<and> sums_exactly 0 (map totalValue (db_reportEntries database123 no_filters))
   \<and> mem_reportEntries store123 no_filters = [entry1, entry2, entry3]
   \<and> clients store123 (clientId entry1) \<noteq> None \<and> clients store123 (clientId entry2) \<noteq> None
   \<and> clients store123 (clientId entry3) \<noteq> None
   \<and> sums_exactly 0 (map totalHours (mem_reportEntries store123 no_filters))
   \<and> sums_exactly 0 (map totalValue (mem_reportEntries store123 no_filters))
   \<and> clientBreakdown (db_getReportData database123 no_filters)
       = [\<lparr> cb_clientId = 1, cb_clientName = ''SkyStoneBrasil'', cb_hours = Fin 16,
            cb_value = Fin 2272, cb_entries = 2 \<rparr>,
          \<lparr> cb_clientId = 2, cb_clientName = ''TechCorp'', cb_hours = Fin 3,
            cb_value = Fin 360, cb_entries = 1 \<rparr>]
   \<and> clientBreakdown (mem_getReportData store123 no_filters)
       = clientBreakdown (db_getReportData database123 no_filters)
   \<and> r_totalHours (db_getReportData database123 no_filters) = Fin 19
   \<and> r_totalValue (db_getReportData database123 no_filters) = Fin 2632
   \<and> r_totalEntries (db_getReportData database123 no_filters) = 3
   \<and> r_totalHours (mem_getReportData store123 no_filters) = Fin 19
   \<and> r_totalValue (mem_getReportData store123 no_filters) = Fin 2632
   \<and> r_totalEntries (mem_getReportData store123 no_filters) = 3
   \<and> reduce_sum cb_hours (clientBreakdown (db_getReportData database123 no_filters)) = Fin 19
   \<and> reduce_sum cb_value (clientBreakdown (db_getReportData database123 no_filters)) = Fin 2632
   \<and> sum_list (map cb_entries (clientBreakdown (db_getReportData database123 no_filters))) = 3
   \<and> reduce_sum cb_hours (clientBreakdown (mem_getReportData store123 no_filters)) = Fin 19
   \<and> reduce_sum cb_value (clientBreakdown (mem_getReportData store123 no_filters)) = Fin 2632
   \<and> sum_list (map cb_entries (clientBreakdown (mem_getReportData store123 no_filters))) = 3"
proof -
  have es: "mem_reportEntries store123 no_filters = [entry1, entry2, entry3]"
    by (simp add: mem_reportEntries_def store123_def store1_def no_filters_def matches_def
        str_truthy_def int_truthy_def)
  have q: "db_reportQuery database123 no_filters
      = [(entry1, Some client1), (entry2, Some client2), (entry3, Some client1)]"
    by (simp add: db_reportQuery_def database123_def database1_def no_filters_def matches_def
        str_truthy_def int_truthy_def entry1_def entry2_def entry3_def)
  have de: "db_reportEntries database123 no_filters = [entry1, entry2, entry3]"
    by (simp add: db_reportEntries_def q)
  have cl: "clients store123 (clientId entry1) \<noteq> None" "clients store123 (clientId entry2) \<noteq> None"
    "clients store123 (clientId entry3) \<noteq> None"
    by (simp_all add: store123_def store1_def entry1_def entry2_def entry3_def)
  have ex: "sums_exactly 0 (map totalHours [entry1, entry2, entry3])"
    "sums_exactly 0 (map totalValue [entry1, entry2, entry3])"
    by (simp_all add: sums_exactly_def on_grid_def the_fin_def entry1_def entry2_def entry3_def)
  have g: "clientBreakdown (db_getReportData database123 no_filters)
       = [\<lparr> cb_clientId = 1, cb_clientName = ''SkyStoneBrasil'', cb_hours = Fin 16,
            cb_value = Fin 2272, cb_entries = 2 \<rparr>,
          \<lparr> cb_clientId = 2, cb_clientName = ''TechCorp'', cb_hours = Fin 3,
            cb_value = Fin 360, cb_entries = 1 \<rparr>]"
    by (simp add: db_report_fields q db_clientGroup_def Let_def js_Set_def js_sort_def
        by_value_desc_def js_sub_def reduce_sum_def entry1_def entry2_def entry3_def
        str_truthy_def client1_def client2_def)
  have m: "clientBreakdown (mem_getReportData store123 no_filters)
       = [\<lparr> cb_clientId = 1, cb_clientName = ''SkyStoneBrasil'', cb_hours = Fin 16,
            cb_value = Fin 2272, cb_entries = 2 \<rparr>,
          \<lparr> cb_clientId = 2, cb_clientName = ''TechCorp'', cb_hours = Fin 3,
            cb_value = Fin 360, cb_entries = 1 \<rparr>]"
    by (simp only: mem_report_fields es)
      (simp add: mem_clientGroup_def Let_def js_Set_def js_sort_def
        by_value_desc_def js_sub_def reduce_sum_def entry1_def entry2_def entry3_def
        store123_def store1_def client1_def client2_def)
  have t: "r_totalHours (db_getReportData database123 no_filters) = Fin 19"
    "r_totalValue (db_getReportData database123 no_filters) = Fin 2632"
    "r_totalEntries (db_getReportData database123 no_filters) = 3"
    "r_totalHours (mem_getReportData store123 no_filters) = Fin 19"
    "r_totalValue (mem_getReportData store123 no_filters) = Fin 2632"
    "r_totalEntries (mem_getReportData store123 no_filters) = 3"
    by (simp_all add: db_report_fields mem_report_fields q es reduce_sum_def entry1_def
        entry2_def entry3_def)
  from group_sums_and_totals [of database123 no_filters 0 0 store123] es de cl ex g m t
  show ?thesis by simp
qed

section \<open>The order of the entries\<close>

lemma mset_concat_map_perm:
  assumes "mset xs = mset ys"
  shows "mset (concat (map H xs)) = mset (concat (map H ys))"
proof -
  have "mset (concat (map H zs)) = sum_mset (image_mset (\<lambda>z. mset (H z)) (mset zs))" for zs
    by (induction zs) simp_all
  then show ?thesis
    by (simp add: assms)
qed

lemma js_Set_perm:
  assumes "mset xs = mset ys"
  shows "mset (js_Set xs) = mset (js_Set ys)"
proof -
  have "set xs = set ys"
    using assms by (rule mset_eq_setD)
  then have "set (js_Set xs) = set (js_Set ys)"
    by simp
  then show ?thesis
    by (simp add: set_eq_iff_mset_eq_distinct[symmetric])
qed

lemma filter_perm: "mset xs = mset ys \<Longrightarrow> mset (filter P xs) = mset (filter P ys)"
  by simp

lemma mset_map_sorted: "mset (map p (js_sort cmp xs)) = mset (map p xs)"
proof -
  have "image_mset p (mset (js_sort cmp xs)) = image_mset p (mset xs)" by simp
  then show ?thesis by (simp del: mset_js_sort)
qed

text \<open>
  What the groups of two stores say agrees, as far as the single groups agree, when the
  client ids are the same up to their order.
\<close>

lemma mem_groups_perm:
  assumes ids: "mset ids2 = mset ids1"
    and proj: "\<And>c. map p (mem_clientGroup st2 es2 c) = map p (mem_clientGroup st1 es1 c)"
  shows "mset (map p (js_sort cmp (concat (map (mem_clientGroup st2 es2) ids2))))
         = mset (map p (js_sort cmp (concat (map (mem_clientGroup st1 es1) ids1))))"
proof -
  have c: "map p (concat (map (mem_clientGroup st es) ids))
        = concat (map (\<lambda>c. map p (mem_clientGroup st es c)) ids)" for st es ids
    by (simp add: map_concat comp_def)
  have "mset (map p (js_sort cmp (concat (map (mem_clientGroup st2 es2) ids2))))
        = mset (concat (map (\<lambda>c. map p (mem_clientGroup st2 es2 c)) ids2))"
    by (simp only: mset_map_sorted c)
  also have "\<dots> = mset (concat (map (\<lambda>c. map p (mem_clientGroup st1 es1 c)) ids2))"
    by (simp only: proj)
  also have "\<dots> = mset (concat (map (\<lambda>c. map p (mem_clientGroup st1 es1 c)) ids1))"
    by (rule mset_concat_map_perm[OF ids])
  also have "\<dots> = mset (map p (js_sort cmp (concat (map (mem_clientGroup st1 es1) ids1))))"
    by (simp only: mset_map_sorted c)
  finally show ?thesis .
qed

lemma db_groups_perm:
  assumes ids: "mset ids2 = mset ids1"
    and proj: "\<And>c. p (db_clientGroup entries2 c) = p (db_clientGroup entries1 c)"
  shows "mset (map p (js_sort cmp (map (db_clientGroup entries2) ids2)))
         = mset (map p (js_sort cmp (map (db_clientGroup entries1) ids1)))"
proof -
  have c: "map p (map (db_clientGroup entries) ids)
        = map (\<lambda>c. p (db_clientGroup entries c)) ids" for entries ids
    by simp
  have "mset (map p (js_sort cmp (map (db_clientGroup entries2) ids2)))
        = mset (map (\<lambda>c. p (db_clientGroup entries2 c)) ids2)"
    by (simp only: mset_map_sorted c)
  also have "\<dots> = mset (map (\<lambda>c. p (db_clientGroup entries1 c)) ids2)"
    by (simp only: proj)
  also have "\<dots> = mset (map (\<lambda>c. p (db_clientGroup entries1 c)) ids1)"
    by (simp only: mset_map ids)
  also have "\<dots> = mset (map p (js_sort cmp (map (db_clientGroup entries1) ids1)))"
    by (simp only: mset_map_sorted c)
  finally show ?thesis .
qed

lemma mem_group_entries_perm:
  assumes "mset es2 = mset es1" "clients st2 = clients st1"
  shows "map group_entries (mem_clientGroup st2 es2 c) = map group_entries (mem_clientGroup st1 es1 c)"
proof -
  have p: "mset (filter (\<lambda>entry. clientId entry = c) es2) = mset (filter (\<lambda>entry. clientId entry = c) es1)"
    using assms(1) by simp
  show ?thesis
    by (simp add: mem_clientGroup_def Let_def group_entries_def assms(2) mset_eq_length[OF p]
        split: option.splits)
qed

lemma mem_group_hours_perm:
  assumes "mset es2 = mset es1" "clients st2 = clients st1"
    and "sums_exactly k (map totalHours es1)"
  shows "map group_hours (mem_clientGroup st2 es2 c) = map group_hours (mem_clientGroup st1 es1 c)"
proof -
  have p: "mset (filter (\<lambda>entry. clientId entry = c) es1) = mset (filter (\<lambda>entry. clientId entry = c) es2)"
    using assms(1) by simp
  have "reduce_sum totalHours (filter (\<lambda>entry. clientId entry = c) es2)
        = reduce_sum totalHours (filter (\<lambda>entry. clientId entry = c) es1)"
    using p sums_exactly_filter[OF assms(3)] by (rule reduce_sum_perm)
  then show ?thesis
    by (simp add: mem_clientGroup_def Let_def group_hours_def assms(2) split: option.splits)
qed

lemma mem_group_value_perm:
  assumes "mset es2 = mset es1" "clients st2 = clients st1"
    and "sums_exactly k (map totalValue es1)"
  shows "map group_value (mem_clientGroup st2 es2 c) = map group_value (mem_clientGroup st1 es1 c)"
proof -
  have p: "mset (filter (\<lambda>entry. clientId entry = c) es1) = mset (filter (\<lambda>entry. clientId entry = c) es2)"
    using assms(1) by simp
  have "reduce_sum totalValue (filter (\<lambda>entry. clientId entry = c) es2)
        = reduce_sum totalValue (filter (\<lambda>entry. clientId entry = c) es1)"
    using p sums_exactly_filter[OF assms(3)] by (rule reduce_sum_perm)
  then show ?thesis
    by (simp add: mem_clientGroup_def Let_def group_value_def assms(2) split: option.splits)
qed

lemma joined_client:
  assumes "\<forall>entry \<in> set entries. snd entry = m (clientId (fst entry))"
  shows "(case filter (\<lambda>entry. clientId (fst entry) = c) entries of [] \<Rightarrow> None | entry # _ \<Rightarrow> snd entry)
         = (if filter (\<lambda>entry. clientId (fst entry) = c) entries = [] then None else m c)"
proof (cases "filter (\<lambda>entry. clientId (fst entry) = c) entries")
  case Nil
  then show ?thesis by simp
next
  case (Cons e es)
  then have "e \<in> set (filter (\<lambda>entry. clientId (fst entry) = c) entries)"
    by simp
  then have "snd e = m c"
    using assms by auto
  with Cons show ?thesis by simp
qed

lemma db_group_entries_perm:
  assumes "mset entries2 = mset entries1"
    and "\<forall>entry \<in> set entries1. snd entry = m (clientId (fst entry))"
  shows "group_entries (db_clientGroup entries2 c) = group_entries (db_clientGroup entries1 c)"
proof -
  have j2: "\<forall>entry \<in> set entries2. snd entry = m (clientId (fst entry))"
    using assms mset_eq_setD by blast
  have p: "mset (filter (\<lambda>entry. clientId (fst entry) = c) entries2)
         = mset (filter (\<lambda>entry. clientId (fst entry) = c) entries1)"
    using assms(1) by simp
  then have e: "filter (\<lambda>entry. clientId (fst entry) = c) entries2 = []
         \<longleftrightarrow> filter (\<lambda>entry. clientId (fst entry) = c) entries1 = []"
    by (metis mset_zero_iff)
  show ?thesis
    unfolding db_clientGroup_def Let_def group_entries_def joined_client[OF assms(2)]
      joined_client[OF j2]
    by (simp add: mset_eq_length[OF p] e)
qed

lemma db_group_hours_perm:
  assumes "mset entries2 = mset entries1"
    and "sums_exactly k (map (\<lambda>entry. totalHours (fst entry)) entries1)"
  shows "group_hours (db_clientGroup entries2 c) = group_hours (db_clientGroup entries1 c)"
proof -
  have p: "mset (filter (\<lambda>entry. clientId (fst entry) = c) entries1)
         = mset (filter (\<lambda>entry. clientId (fst entry) = c) entries2)"
    using assms(1) by simp
  have "reduce_sum (\<lambda>entry. totalHours (fst entry)) (filter (\<lambda>entry. clientId (fst entry) = c) entries2)
        = reduce_sum (\<lambda>entry. totalHours (fst entry)) (filter (\<lambda>entry. clientId (fst entry) = c) entries1)"
    using p sums_exactly_filter[OF assms(2)] by (rule reduce_sum_perm)
  then show ?thesis
    by (simp add: group_hours_def)
qed

lemma db_group_value_perm:
  assumes "mset entries2 = mset entries1"
    and "sums_exactly k (map (\<lambda>entry. totalValue (fst entry)) entries1)"
  shows "group_value (db_clientGroup entries2 c) = group_value (db_clientGroup entries1 c)"
proof -
  have p: "mset (filter (\<lambda>entry. clientId (fst entry) = c) entries1)
         = mset (filter (\<lambda>entry. clientId (fst entry) = c) entries2)"
    using assms(1) by simp
  have "reduce_sum (\<lambda>entry. totalValue (fst entry)) (filter (\<lambda>entry. clientId (fst entry) = c) entries2)
        = reduce_sum (\<lambda>entry. totalValue (fst entry)) (filter (\<lambda>entry. clientId (fst entry) = c) entries1)"
    using p sums_exactly_filter[OF assms(2)] by (rule reduce_sum_perm)
  then show ?thesis
    by (simp add: group_value_def)
qed

lemma mem_report_perm:
  assumes "mset (map snd (timeEntries st2)) = mset (map snd (timeEntries st1))"
    and "clients st2 = clients st1"
  shows "r_totalEntries (mem_getReportData st2 f) = r_totalEntries (mem_getReportData st1 f)
       \<and> r_totalClients (mem_getReportData st2 f) = r_totalClients (mem_getReportData st1 f)
       \<and> mset (map group_entries (clientBreakdown (mem_getReportData st2 f)))
           = mset (map group_entries (clientBreakdown (mem_getReportData st1 f)))
       \<and> (sums_exactly k (map totalHours (mem_reportEntries st1 f))
           \<longrightarrow> mset (map group_hours (clientBreakdown (mem_getReportData st2 f)))
                 = mset (map group_hours (clientBreakdown (mem_getReportData st1 f)))
               \<and> r_totalHours (mem_getReportData st2 f) = r_totalHours (mem_getReportData st1 f))
       \<and> (sums_exactly j (map totalValue (mem_reportEntries st1 f))
           \<longrightarrow> mset (map group_value (clientBreakdown (mem_getReportData st2 f)))
                 = mset (map group_value (clientBreakdown (mem_getReportData st1 f)))
               \<and> r_totalValue (mem_getReportData st2 f) = r_totalValue (mem_getReportData st1 f))"
proof -
  have es: "mset (mem_reportEntries st2 f) = mset (mem_reportEntries st1 f)"
    unfolding mem_reportEntries_def using assms(1) by (rule filter_perm)
  have ids: "mset (js_Set (map clientId (mem_reportEntries st2 f)))
           = mset (js_Set (map clientId (mem_reportEntries st1 f)))"
    by (rule js_Set_perm) (simp add: es)
  have n: "r_totalEntries (mem_getReportData st2 f) = r_totalEntries (mem_getReportData st1 f)"
    "r_totalClients (mem_getReportData st2 f) = r_totalClients (mem_getReportData st1 f)"
    by (simp_all add: mem_report_fields mset_eq_length[OF es] mset_eq_length[OF ids])
  have e: "mset (map group_entries (clientBreakdown (mem_getReportData st2 f)))
           = mset (map group_entries (clientBreakdown (mem_getReportData st1 f)))"
    unfolding mem_report_fields
    by (rule mem_groups_perm[OF ids]) (rule mem_group_entries_perm[OF es assms(2)])
  have h: "mset (map group_hours (clientBreakdown (mem_getReportData st2 f)))
                 = mset (map group_hours (clientBreakdown (mem_getReportData st1 f)))
               \<and> r_totalHours (mem_getReportData st2 f) = r_totalHours (mem_getReportData st1 f)"
    if ex: "sums_exactly k (map totalHours (mem_reportEntries st1 f))"
  proof
    show "mset (map group_hours (clientBreakdown (mem_getReportData st2 f)))
          = mset (map group_hours (clientBreakdown (mem_getReportData st1 f)))"
      unfolding mem_report_fields
      by (rule mem_groups_perm[OF ids]) (rule mem_group_hours_perm[OF es assms(2) ex])
    show "r_totalHours (mem_getReportData st2 f) = r_totalHours (mem_getReportData st1 f)"
      unfolding mem_report_fields using es[symmetric] ex by (rule reduce_sum_perm)
  qed
  have v: "mset (map group_value (clientBreakdown (mem_getReportData st2 f)))
                 = mset (map group_value (clientBreakdown (mem_getReportData st1 f)))
               \<and> r_totalValue (mem_getReportData st2 f) = r_totalValue (mem_getReportData st1 f)"
    if ex: "sums_exactly j (map totalValue (mem_reportEntries st1 f))"
  proof
    show "mset (map group_value (clientBreakdown (mem_getReportData st2 f)))
          = mset (map group_value (clientBreakdown (mem_getReportData st1 f)))"
      unfolding mem_report_fields
      by (rule mem_groups_perm[OF ids]) (rule mem_group_value_perm[OF es assms(2) ex])
    show "r_totalValue (mem_getReportData st2 f) = r_totalValue (mem_getReportData st1 f)"
      unfolding mem_report_fields using es[symmetric] ex by (rule reduce_sum_perm)
  qed
  from n e h v show ?thesis by blast
qed

lemma db_report_perm:
  assumes "mset (db_timeEntries db2) = mset (db_timeEntries db1)"
    and "db_clients db2 = db_clients db1"
  shows "r_totalEntries (db_getReportData db2 f) = r_totalEntries (db_getReportData db1 f)
       \<and> r_totalClients (db_getReportData db2 f) = r_totalClients (db_getReportData db1 f)
       \<and> mset (map group_entries (clientBreakdown (db_getReportData db2 f)))
           = mset (map group_entries (clientBreakdown (db_getReportData db1 f)))
       \<and> (sums_exactly k (map totalHours (db_reportEntries db1 f))
           \<longrightarrow> mset (map group_hours (clientBreakdown (db_getReportData db2 f)))
                 = mset (map group_hours (clientBreakdown (db_getReportData db1 f)))
               \<and> r_totalHours (db_getReportData db2 f) = r_totalHours (db_getReportData db1 f))
       \<and> (sums_exactly j (map totalValue (db_reportEntries db1 f))
           \<longrightarrow> mset (map group_value (clientBreakdown (db_getReportData db2 f)))
                 = mset (map group_value (clientBreakdown (db_getReportData db1 f)))
               \<and> r_totalValue (db_getReportData db2 f) = r_totalValue (db_getReportData db1 f))"
proof -
  have es: "mset (db_reportQuery db2 f) = mset (db_reportQuery db1 f)"
    by (simp add: db_reportQuery_def assms)
  have jn: "\<forall>entry \<in> set (db_reportQuery db1 f). snd entry = db_clients db1 (clientId (fst entry))"
    by (auto simp: db_reportQuery_def)
  have ids: "mset (js_Set (map (\<lambda>entry. clientId (fst entry)) (db_reportQuery db2 f)))
           = mset (js_Set (map (\<lambda>entry. clientId (fst entry)) (db_reportQuery db1 f)))"
    by (rule js_Set_perm) (simp add: es)
  have n: "r_totalEntries (db_getReportData db2 f) = r_totalEntries (db_getReportData db1 f)"
    "r_totalClients (db_getReportData db2 f) = r_totalClients (db_getReportData db1 f)"
    by (simp_all add: db_report_fields mset_eq_length[OF es] mset_eq_length[OF ids])
  have e: "mset (map group_entries (clientBreakdown (db_getReportData db2 f)))
           = mset (map group_entries (clientBreakdown (db_getReportData db1 f)))"
    unfolding db_report_fields
    by (rule db_groups_perm[OF ids]) (rule db_group_entries_perm[OF es jn])
  have h: "mset (map group_hours (clientBreakdown (db_getReportData db2 f)))
                 = mset (map group_hours (clientBreakdown (db_getReportData db1 f)))
               \<and> r_totalHours (db_getReportData db2 f) = r_totalHours (db_getReportData db1 f)"
    if "sums_exactly k (map totalHours (db_reportEntries db1 f))"
  proof
    from that have ex: "sums_exactly k (map (\<lambda>entry. totalHours (fst entry)) (db_reportQuery db1 f))"
      by (simp add: db_reportEntries_def comp_def)
    show "mset (map group_hours (clientBreakdown (db_getReportData db2 f)))
          = mset (map group_hours (clientBreakdown (db_getReportData db1 f)))"
      unfolding db_report_fields
      by (rule db_groups_perm[OF ids]) (rule db_group_hours_perm[OF es ex])
    show "r_totalHours (db_getReportData db2 f) = r_totalHours (db_getReportData db1 f)"
      unfolding db_report_fields using es[symmetric] ex by (rule reduce_sum_perm)
  qed
  have v: "mset (map group_value (clientBreakdown (db_getReportData db2 f)))
                 = mset (map group_value (clientBreakdown (db_getReportData db1 f)))
               \<and> r_totalValue (db_getReportData db2 f) = r_totalValue (db_getReportData db1 f)"
    if "sums_exactly j (map totalValue (db_reportEntries db1 f))"
  proof
    from that have ex: "sums_exactly j (map (\<lambda>entry. totalValue (fst entry)) (db_reportQuery db1 f))"
      by (simp add: db_reportEntries_def comp_def)
    show "mset (map group_value (clientBreakdown (db_getReportData db2 f)))
          = mset (map group_value (clientBreakdown (db_getReportData db1 f)))"
      unfolding db_report_fields
      by (rule db_groups_perm[OF ids]) (rule db_group_value_perm[OF es ex])
    show "r_totalValue (db_getReportData db2 f) = r_totalValue (db_getReportData db1 f)"
      unfolding db_report_fields using es[symmetric] ex by (rule reduce_sum_perm)
  qed
  from n e h v show ?thesis by blast
qed

text \<open>
  Claim C8 says that \<open>getReportData\<close> gives every group the same sums whatever the
  order of the entries. The sums are binary64 sums, taken in the order of the entries,
  and binary64 addition is not associative: for the three short entries of one client,
  stored in the order 0.1, 0.2, 0.3 the hours of the group are \<open>0.6000000000000001\<close>,
  stored in the order 0.3, 0.2, 0.1 they are \<open>0.6\<close>, in the in-memory store and in the
  database store alike.
\<close>

theorem order_of_entries_counterexample:
  "mset (map snd (timeEntries store654)) = mset (map snd (timeEntries store456))
   \<and> clients store654 = clients store456
   \<and> map cb_hours (clientBreakdown (mem_getReportData store456 no_filters))
       = [Fin (1351079888211149 / 2251799813685248)]
   \<and> map cb_hours (clientBreakdown (mem_getReportData store654 no_filters))
       = [Fin (5404319552844595 / 9007199254740992)]
   \<and> mset (db_timeEntries database654) = mset (db_timeEntries database456)
   \<and> db_clients database654 = db_clients database456
   \<and> map cb_hours (clientBreakdown (db_getReportData database456 no_filters))
       = [Fin (1351079888211149 / 2251799813685248)]
   \<and> map cb_hours (clientBreakdown (db_getReportData database654 no_filters))
       = [Fin (5404319552844595 / 9007199254740992)]"
proof -
  have p: "mset (map snd (timeEntries store654)) = mset (map snd (timeEntries store456))"
    "clients store654 = clients store456"
    "mset (db_timeEntries database654) = mset (db_timeEntries database456)"
    "db_clients database654 = db_clients database456"
    by (simp_all add: store654_def store456_def database654_def database456_def)
  have es: "mem_reportEntries store456 no_filters = [entry4 1, entry5 1, entry6 1]"
    "mem_reportEntries store654 no_filters = [entry6 1, entry5 1, entry4 1]"
    by (simp_all add: mem_reportEntries_def store456_def store654_def store1_def no_filters_def
        matches_def str_truthy_def int_truthy_def)
  have q: "db_reportQuery database456 no_filters
      = [(entry4 1, Some client1), (entry5 1, Some client1), (entry6 1, Some client1)]"
    "db_reportQuery database654 no_filters
      = [(entry6 1, Some client1), (entry5 1, Some client1), (entry4 1, Some client1)]"
    by (simp_all add: db_reportQuery_def database456_def database654_def database1_def
        no_filters_def matches_def str_truthy_def int_truthy_def short_entry_totals)
  have c: "clients store456 1 = Some client1" "clients store654 1 = Some client1"
    by (simp_all add: store456_def store654_def store1_def)
  have m: "map cb_hours (clientBreakdown (mem_getReportData store456 no_filters))
       = [Fin (1351079888211149 / 2251799813685248)]"
    "map cb_hours (clientBreakdown (mem_getReportData store654 no_filters))
       = [Fin (5404319552844595 / 9007199254740992)]"
    by (simp_all add: mem_report_fields es mem_clientGroup_def c Let_def js_Set_def js_sort_def
        reduce_sum_def short_entry_totals round64_tenths)
  have d: "map cb_hours (clientBreakdown (db_getReportData database456 no_filters))
       = [Fin (1351079888211149 / 2251799813685248)]"
    "map cb_hours (clientBreakdown (db_getReportData database654 no_filters))
       = [Fin (5404319552844595 / 9007199254740992)]"
    by (simp_all add: db_report_fields q db_clientGroup_def Let_def js_Set_def js_sort_def
        reduce_sum_def short_entry_totals round64_tenths)
  from p m d show ?thesis by blast
qed

text \<open>
  Claim C8, as amended. When the time entries of two stores are permutations of each
  other (and the clients are the same), \<open>getReportData\<close> returns, in the in-memory store
  and in the database store, the same number of entries and of clients and the same
  groups with the same client, name and entry count. When the stored hours sum exactly
  on a grid, every group has the same hours and the total hours are the same; when the
  stored values do, every group has the same value and the total value is the same.
\<close>

theorem report_order_independent:
  "(mset (map snd (timeEntries st2)) = mset (map snd (timeEntries st1)) \<and> clients st2 = clients st1
     \<longrightarrow> r_totalEntries (mem_getReportData st2 f) = r_totalEntries (mem_getReportData st1 f)
         \<and> r_totalClients (mem_getReportData st2 f) = r_totalClients (mem_getReportData st1 f)
         \<and> mset (map group_entries (clientBreakdown (mem_getReportData st2 f)))
             = mset (map group_entries (clientBreakdown (mem_getReportData st1 f)))
         \<and> (sums_exactly k (map totalHours (mem_reportEntries st1 f))
             \<longrightarrow> mset (map group_hours (clientBreakdown (mem_getReportData st2 f)))
                   = mset (map group_hours (clientBreakdown (mem_getReportData st1 f)))
                 \<and> r_totalHours (mem_getReportData st2 f) = r_totalHours (mem_getReportData st1 f))
         \<and> (sums_exactly j (map totalValue (mem_reportEntries st1 f))
             \<longrightarrow> mset (map group_value (clientBreakdown (mem_getReportData st2 f)))
                   = mset (map group_value (clientBreakdown (mem_getReportData st1 f)))
                 \<and> r_totalValue (mem_getReportData st2 f) = r_totalValue (mem_getReportData st1 f)))
   \<and> (mset (db_timeEntries db2) = mset (db_timeEntries db1) \<and> db_clients db2 = db_clients db1
     \<longrightarrow> r_totalEntries (db_getReportData db2 f) = r_totalEntries (db_getReportData db1 f)
         \<and> r_totalClients (db_getReportData db2 f) = r_totalClients (db_getReportData db1 f)
         \<and> mset (map group_entries (clientBreakdown (db_getReportData db2 f)))
             = mset (map group_entries (clientBreakdown (db_getReportData db1 f)))
         \<and> (sums_exactly k (map totalHours (db_reportEntries db1 f))
             \<longrightarrow> mset (map group_hours (clientBreakdown (db_getReportData db2 f)))
                   = mset (map group_hours (clientBreakdown (db_getReportData db1 f)))
                 \<and> r_totalHours (db_getReportData db2 f) = r_totalHours (db_getReportData db1 f))
         \<and> (sums_exactly j (map totalValue (db_reportEntries db1 f))
             \<longrightarrow> mset (map group_value (clientBreakdown (db_getReportData db2 f)))
                   = mset (map group_value (clientBreakdown (db_getReportData db1 f)))
                 \<and> r_totalValue (db_getReportData db2 f) = r_totalValue (db_getReportData db1 f)))"
  using mem_report_perm[of st2 st1 f k j] db_report_perm[of db2 db1 f k j] by blast

theorem report_order_independent_witness:
  "mset (map snd (timeEntries store321)) = mset (map snd (timeEntries store123))
   \<and> clients store321 = clients store123
   \<and> mset (db_timeEntries database321) = mset (db_timeEntries database123)
   \<and> db_clients database321 = db_clients database123
   \<and> sums_exactly 0 (map totalHours (mem_reportEntries store123 no_filters))
   \<and> sums_exactly 0 (map totalValue (mem_reportEntries store123 no_filters))
   \<and> sums_exactly 0 (map totalHours (db_reportEntries database123 no_filters))
   \<and> sums_exactly 0 (map totalValue (db_reportEntries database123 no_filters))
   \<and> map group_hours (clientBreakdown (mem_getReportData store123 no_filters))
       = [(1, Fin 16), (2, Fin 3)]
   \<and> map group_value (clientBreakdown (mem_getReportData store123 no_filters))
       = [(1, Fin 2272), (2, Fin 360)]
   \<and> map group_entries (clientBreakdown (mem_getReportData store123 no_filters))
       = [(1, ''SkyStoneBrasil'', 2), (2, ''TechCorp'', 1)]
   \<and> mset (map group_hours (clientBreakdown (mem_getReportData store321 no_filters)))
       = mset [(1, Fin 16), (2, Fin 3)]
   \<and> mset (map group_value (clientBreakdown (mem_getReportData store321 no_filters)))
       = mset [(1, Fin 2272), (2, Fin 360)]
   \<and> mset (map group_entries (clientBreakdown (mem_getReportData store321 no_filters)))
       = mset [(1, ''SkyStoneBrasil'', 2), (2, ''TechCorp'', 1)]
   \<and> map group_hours (clientBreakdown (db_getReportData database123 no_filters))
       = [(1, Fin 16), (2, Fin 3)]
   \<and> map group_value (clientBreakdown (db_getReportData database123 no_filters))
       = [(1, Fin 2272), (2, Fin 360)]
   \<and> map group_entries (clientBreakdown (db_getReportData database123 no_filters))
       = [(1, ''SkyStoneBrasil'', 2), (2, ''TechCorp'', 1)]
   \<and> mset (map group_hours (clientBreakdown (db_getReportData database321 no_filters)))
       = mset [(1, Fin 16), (2, Fin 3)]
   \<and> mset (map group_value (clientBreakdown (db_getReportData database321 no_filters)))
       = mset [(1, Fin 2272), (2, Fin 360)]
   \<and> mset (map group_entries (clientBreakdown (db_getReportData database321 no_filters)))
       = mset [(1, ''SkyStoneBrasil'', 2), (2, ''TechCorp'', 1)]
   \<and> r_totalHours (mem_getReportData store321 no_filters) = Fin 19
   \<and> r_totalValue (mem_getReportData store321 no_filters) = Fin 2632
   \<and> r_totalHours (db_getReportData database321 no_filters) = Fin 19
   \<and> r_totalValue (db_getReportData database321 no_filters) = Fin 2632"
proof -
  have a: "mset (map snd (timeEntries store321)) = mset (map snd (timeEntries store123))"
    "clients store321 = clients store123"
    "mset (db_timeEntries database321) = mset (db_timeEntries database123)"
    "db_clients database321 = db_clients database123"
    by (simp_all add: store321_def store123_def database321_def database123_def)
  have es: "mem_reportEntries store123 no_filters = [entry1, entry2, entry3]"
    by (simp add: mem_reportEntries_def store123_def store1_def no_filters_def matches_def
        str_truthy_def int_truthy_def)
  have q: "db_reportQuery database123 no_filters
      = [(entry1, Some client1), (entry2, Some client2), (entry3, Some client1)]"
    by (simp add: db_reportQuery_def database123_def database1_def no_filters_def matches_def
        str_truthy_def int_truthy_def entry1_def entry2_def entry3_def)
  have de: "db_reportEntries database123 no_filters = [entry1, entry2, entry3]"
    by (simp add: db_reportEntries_def q)
  have ex: "sums_exactly 0 (map totalHours [entry1, entry2, entry3])"
    "sums_exactly 0 (map totalValue [entry1, entry2, entry3])"
    by (simp_all add: sums_exactly_def on_grid_def the_fin_def entry1_def entry2_def entry3_def)
  have g: "clientBreakdown (db_getReportData database123 no_filters)
       = [\<lparr> cb_clientId = 1, cb_clientName = ''SkyStoneBrasil'', cb_hours = Fin 16,
            cb_value = Fin 2272, cb_entries = 2 \<rparr>,
          \<lparr> cb_clientId = 2, cb_clientName = ''TechCorp'', cb_hours = Fin 3,
            cb_value = Fin 360, cb_entries = 1 \<rparr>]"
    by (simp add: db_report_fields q db_clientGroup_def Let_def js_Set_def js_sort_def
        by_value_desc_def js_sub_def reduce_sum_def entry1_def entry2_def entry3_def
        str_truthy_def client1_def client2_def)
  have m: "clientBreakdown (mem_getReportData store123 no_filters)
       = [\<lparr> cb_clientId = 1, cb_clientName = ''SkyStoneBrasil'', cb_hours = Fin 16,
            cb_value = Fin 2272, cb_entries = 2 \<rparr>,
          \<lparr> cb_clientId = 2, cb_clientName = ''TechCorp'', cb_hours = Fin 3,
            cb_value = Fin 360, cb_entries = 1 \<rparr>]"
    by (simp only: mem_report_fields es)
      (simp add: mem_clientGroup_def Let_def js_Set_def js_sort_def
        by_value_desc_def js_sub_def reduce_sum_def entry1_def entry2_def entry3_def
        store123_def store1_def client1_def client2_def)
  have t: "r_totalHours (db_getReportData database123 no_filters) = Fin 19"
    "r_totalValue (db_getReportData database123 no_filters) = Fin 2632"
    "r_totalHours (mem_getReportData store123 no_filters) = Fin 19"
    "r_totalValue (mem_getReportData store123 no_filters) = Fin 2632"
    by (simp_all add: db_report_fields mem_report_fields q es reduce_sum_def entry1_def
        entry2_def entry3_def)
  from report_order_independent [of store321 store123 no_filters 0 0 database321 database123]
    a es de ex g m t
  show ?thesis by (simp add: group_hours_def group_value_def group_entries_def)
qed

end
